theory Spec2Isabelle
  imports Complex_Main "HOL-Library.Word"
begin

section \<open>JavaScript values\<close>

text \<open>
  The server (\<^verbatim>\<open>server/index.js\<close>) is an Express application. Its handlers work on
  JavaScript strings, on the JSON values of a parsed request body, on the local file
  system and on two calls to an external provider. A JavaScript string is a sequence of
  UTF-16 code units: \<^verbatim>\<open>length\<close> counts code units and \<^verbatim>\<open>trim\<close> inspects them one by one.
\<close>

type_synonym jsstring = "16 word list"

text \<open>An ASCII literal of the source, as code units.\<close>

definition js :: "string \<Rightarrow> jsstring" where
  "js s = map of_char s"

text \<open>
  The values \<^verbatim>\<open>express.json()\<close> can put into a field of \<^verbatim>\<open>req.body\<close>, together with
  \<^verbatim>\<open>undefined\<close> for a field that is not there. A number is a finite double, hence a
  rational; a parsed JSON number is never \<^verbatim>\<open>NaN\<close>, and the handlers compute with integers
  only (lengths, counts, milliseconds).
\<close>

datatype jsval =
    JUndefined
  | JNull
  | JBool bool
  | JNum rat
  | JStr jsstring
  | JArr "jsval list"
  | JObj "(jsstring \<times> jsval) list"

text \<open>\<^verbatim>\<open>ToBoolean\<close>: what \<^verbatim>\<open>!x\<close> and \<^verbatim>\<open>x || y\<close> look at.\<close>

fun truthy :: "jsval \<Rightarrow> bool" where
  "truthy JUndefined = False"
| "truthy JNull = False"
| "truthy (JBool b) = b"
| "truthy (JNum n) = (n \<noteq> 0)"
| "truthy (JStr s) = (s \<noteq> [])"
| "truthy (JArr xs) = True"
| "truthy (JObj kvs) = True"

text \<open>\<^verbatim>\<open>a || b\<close> is \<^verbatim>\<open>a\<close> itself when it is truthy, and \<^verbatim>\<open>b\<close> otherwise.\<close>

definition js_or :: "jsval \<Rightarrow> jsval \<Rightarrow> jsval" where
  "js_or a b = (if truthy a then a else b)"

text \<open>
  White space and line terminators of ECMAScript, the code units that
  \<^verbatim>\<open>String.prototype.trim\<close> removes from both ends.
\<close>

definition isWhiteSpace :: "16 word \<Rightarrow> bool" where
  "isWhiteSpace c \<longleftrightarrow>
     c \<in> {0x0009, 0x000A, 0x000B, 0x000C, 0x000D, 0x0020, 0x00A0, 0x1680,
          0x2028, 0x2029, 0x202F, 0x205F, 0x3000, 0xFEFF}
     \<or> (0x2000 \<le> c \<and> c \<le> 0x200A)"

definition trim :: "jsstring \<Rightarrow> jsstring" where
  "trim s = rev (dropWhile isWhiteSpace (rev (dropWhile isWhiteSpace s)))"

text \<open>
  A thrown value: the two properties the handlers read. An error raised by the
  engine or by \<^verbatim>\<open>fs\<close> has a message worded by the platform; the wording below is V8's and
  Node's, and only \<^verbatim>\<open>details\<close> of a 500 response in development shows it.
\<close>

datatype exn = Exn (code: jsval) (message: jsval)

definition TypeError :: "string \<Rightarrow> exn" where
  "TypeError m = Exn JUndefined (JStr (js m))"

definition SystemError :: "string \<Rightarrow> exn" where
  "SystemError c = Exn (JStr (js c)) (JStr (js c))"

text \<open>
  \<^verbatim>\<open>v.trim()\<close>. Only a string has a callable \<^verbatim>\<open>trim\<close>: on a number, a boolean or an
  array the property is \<^verbatim>\<open>undefined\<close>, on an object of a JSON body it is \<^verbatim>\<open>undefined\<close> or
  some JSON value, never a function, and reading it from \<^verbatim>\<open>undefined\<close> or \<^verbatim>\<open>null\<close> fails
  as well. All of these throw a \<^verbatim>\<open>TypeError\<close>.
\<close>

fun call_trim :: "jsval \<Rightarrow> exn + jsval" where
  "call_trim (JStr s) = Inr (JStr (trim s))"
| "call_trim JUndefined = Inl (TypeError ''Cannot read properties of undefined (reading 'trim')'')"
| "call_trim JNull = Inl (TypeError ''Cannot read properties of null (reading 'trim')'')"
| "call_trim v = Inl (TypeError ''prompt.trim is not a function'')"

text \<open>
  \<^verbatim>\<open>v.length\<close>: the number of code units of a string, the number of elements of an
  array, the property of that name of an object, \<^verbatim>\<open>undefined\<close> on a number or a boolean,
  and a \<^verbatim>\<open>TypeError\<close> on \<^verbatim>\<open>undefined\<close> and \<^verbatim>\<open>null\<close>.
\<close>

fun get_length :: "jsval \<Rightarrow> exn + jsval" where
  "get_length (JStr s) = Inr (JNum (of_nat (length s)))"
| "get_length (JArr xs) = Inr (JNum (of_nat (length xs)))"
| "get_length (JObj kvs) =
     Inr (case map_of kvs (js ''length'') of None \<Rightarrow> JUndefined | Some v \<Rightarrow> v)"
| "get_length JUndefined = Inl (TypeError ''Cannot read properties of undefined (reading 'length')'')"
| "get_length JNull = Inl (TypeError ''Cannot read properties of null (reading 'length')'')"
| "get_length v = Inr JUndefined"

text \<open>
  A number in a template literal: the decimal digits of an integer, with a minus sign
  when it is negative. (\<^verbatim>\<open>Date.now()\<close> and a count of files are integers far below
  \<open>10\<^sup>2\<^sup>1\<close>, where JavaScript starts to print exponents.)
\<close>

definition digit :: "nat \<Rightarrow> 16 word" where
  "digit d = of_nat (48 + d)"

fun digits :: "nat \<Rightarrow> jsstring" where
  "digits n = (if n < 10 then [digit n] else digits (n div 10) @ [digit (n mod 10)])"

definition number_to_string :: "int \<Rightarrow> jsstring" where
  "number_to_string i = (if i < 0 then 0x2D # digits (nat (- i)) else digits (nat i))"

section \<open>Paths and the file system\<close>

text \<open>
  An absolute, normalised POSIX path is the list of its segments. \<^verbatim>\<open>path.join(base, name)\<close>
  concatenates with a separator and normalises lexically: empty and \<^verbatim>\<open>.\<close> segments
  vanish, \<^verbatim>\<open>..\<close> removes the segment before it (and nothing at the root), and a trailing
  separator of \<open>name\<close> is kept, which the model records as a final empty segment.
\<close>

type_synonym path = "jsstring list"

fun split_on :: "'a \<Rightarrow> 'a list \<Rightarrow> 'a list list" where
  "split_on d [] = [[]]"
| "split_on d (c # cs) =
     (if c = d then [] # split_on d cs
      else (case split_on d cs of [] \<Rightarrow> [[c]] | w # ws \<Rightarrow> (c # w) # ws))"

definition normalize_step :: "path \<Rightarrow> jsstring \<Rightarrow> path" where
  "normalize_step p seg =
     (if seg = [] \<or> seg = js ''.'' then p
      else if seg = js ''..'' then butlast p
      else p @ [seg])"

definition path_join :: "path \<Rightarrow> jsstring \<Rightarrow> path" where
  "path_join base name =
     (let p = foldl normalize_step base (split_on 0x2F name)
      in if name \<noteq> [] \<and> last name = 0x2F \<and> p \<noteq> [] then p @ [[]] else p)"

text \<open>
  The file system is a list of entries, in the order in which a directory listing
  returns them. An entry is a regular file with its bytes or a directory, each with its
  last-modified time in milliseconds since the epoch. Symbolic links and permissions
  are not modelled, nor is the last-modified time of a directory whose entries change
  (the server never reads it).
\<close>

datatype node = File (mtime: int) (bytes: "8 word list") | Dir (mtime: int)

type_synonym filesys = "(path \<times> node) list"

text \<open>
  What a path names: with a trailing separator it names a directory or nothing.
\<close>

definition resolve :: "filesys \<Rightarrow> path \<Rightarrow> node option" where
  "resolve fs p =
     (if p \<noteq> [] \<and> last p = [] then
        (case map_of fs (butlast p) of Some (Dir t) \<Rightarrow> Some (Dir t) | _ \<Rightarrow> None)
      else map_of fs p)"

text \<open>The entries of the directory \<open>d\<close> itself (not those further down), in listing order.\<close>

definition entries :: "filesys \<Rightarrow> path \<Rightarrow> (path \<times> node) list" where
  "entries fs d = filter (\<lambda>e. fst e \<noteq> [] \<and> butlast (fst e) = d) fs"

definition existsSync :: "filesys \<Rightarrow> path \<Rightarrow> bool" where
  "existsSync fs p = (resolve fs p \<noteq> None)"

definition readdirSync :: "filesys \<Rightarrow> path \<Rightarrow> exn + jsstring list" where
  "readdirSync fs d =
     (case resolve fs d of
        None \<Rightarrow> Inl (SystemError ''ENOENT'')
      | Some (File t b) \<Rightarrow> Inl (SystemError ''ENOTDIR'')
      | Some (Dir t) \<Rightarrow>
          Inr (map (\<lambda>e. last (fst e)) (entries fs d)))"

definition statSync :: "filesys \<Rightarrow> path \<Rightarrow> exn + node" where
  "statSync fs p =
     (case resolve fs p of None \<Rightarrow> Inl (SystemError ''ENOENT'') | Some n \<Rightarrow> Inr n)"

text \<open>\<^verbatim>\<open>unlink\<close> removes a file and refuses a directory.\<close>

definition unlinkSync :: "filesys \<Rightarrow> path \<Rightarrow> exn + filesys" where
  "unlinkSync fs p =
     (case resolve fs p of
        None \<Rightarrow> Inl (SystemError ''ENOENT'')
      | Some (Dir t) \<Rightarrow> Inl (SystemError ''EISDIR'')
      | Some (File t b) \<Rightarrow> Inr (filter (\<lambda>e. fst e \<noteq> p) fs))"

text \<open>
  \<^verbatim>\<open>writeFileSync\<close> creates the file in an existing directory or replaces the bytes of an
  existing file; \<open>t\<close> is the time the system stamps on it.
\<close>

definition writeFileSync :: "filesys \<Rightarrow> path \<Rightarrow> 8 word list \<Rightarrow> int \<Rightarrow> exn + filesys" where
  "writeFileSync fs p buffer t =
     (if p = [] \<or> last p = [] then Inl (SystemError ''EISDIR'')
      else case map_of fs p of
        Some (Dir m) \<Rightarrow> Inl (SystemError ''EISDIR'')
      | Some (File m b) \<Rightarrow> Inr (map (\<lambda>e. if fst e = p then (p, File t buffer) else e) fs)
      | None \<Rightarrow>
          (case map_of fs (butlast p) of
             Some (Dir m) \<Rightarrow> Inr (fs @ [(p, File t buffer)])
           | _ \<Rightarrow> Inl (SystemError ''ENOENT'')))"

definition createReadStream :: "filesys \<Rightarrow> path \<Rightarrow> exn + 8 word list" where
  "createReadStream fs p =
     (case resolve fs p of
        None \<Rightarrow> Inl (SystemError ''ENOENT'')
      | Some (Dir t) \<Rightarrow> Inl (SystemError ''EISDIR'')
      | Some (File t b) \<Rightarrow> Inr b)"

section \<open>The server\<close>

text \<open>
  What the process is started with: two environment variables, the version string of
  the runtime and \<^verbatim>\<open>__dirname\<close>, the directory of \<^verbatim>\<open>index.js\<close>. The audio directory is
  \<^verbatim>\<open>path.join(__dirname, 'public', 'audio')\<close>; the server creates it when it starts, if
  it is not there.
\<close>

record env =
  NODE_ENV :: "jsstring option"
  OPENAI_API_KEY :: "jsstring option"
  version :: jsstring
  dirname :: path

definition audioDir :: "env \<Rightarrow> path" where
  "audioDir E = path_join (path_join (dirname E) (js ''public'')) (js ''audio'')"

text \<open>
  The clock, as one request reads it: \<^verbatim>\<open>Date.now()\<close>, the time the system stamps on a
  file written by the request, and \<^verbatim>\<open>new Date().toISOString()\<close>.
\<close>

record clock =
  dateNow :: int
  fileTime :: int
  isoString :: jsstring

text \<open>
  The external provider, as it answers one request. \<^verbatim>\<open>chat.completions.create\<close> is sent
  the system message and the user prompt (with the fixed model \<^verbatim>\<open>gpt-3.5-turbo\<close>,
  \<^verbatim>\<open>max_tokens\<close> 500 and temperature 0.7) and throws or returns the message contents of
  its choices; \<^verbatim>\<open>audio.speech.create\<close> is sent the input text (model \<^verbatim>\<open>tts-1\<close>, voice
  \<^verbatim>\<open>alloy\<close>, speed 1.0) and throws or returns the bytes of the audio. Every call is
  logged.
\<close>

record provider =
  chat_completions_create :: "jsval \<Rightarrow> jsval \<Rightarrow> exn + jsval list"
  audio_speech_create :: "jsval \<Rightarrow> exn + 8 word list"

datatype call = ChatCompletionsCreate jsval jsval | AudioSpeechCreate jsval

text \<open>
  A response: a status with a JSON body, the bytes of a file streamed with headers
  (status 200), or a stream that fails after the headers were set, an error event
  without a listener.
\<close>

datatype response =
    Json nat jsval
  | Stream "(string \<times> string) list" "8 word list"
  | Aborted "(string \<times> string) list" exn

fun status :: "response \<Rightarrow> nat option" where
  "status (Json st b) = Some st"
| "status (Stream hs bs) = Some 200"
| "status (Aborted hs e) = None"

fun body :: "response \<Rightarrow> jsval" where
  "body (Json st b) = b"
| "body r = JUndefined"

text \<open>
  \<^verbatim>\<open>res.status(st).json({...})\<close>: a property whose value is \<^verbatim>\<open>undefined\<close> is left out of
  the serialised object.
\<close>

definition res_json :: "nat \<Rightarrow> (string \<times> jsval) list \<Rightarrow> response" where
  "res_json st props =
     Json st (JObj (map (\<lambda>f. (js (fst f), snd f)) (filter (\<lambda>f. snd f \<noteq> JUndefined) props)))"

text \<open>Reading a property of a JSON body.\<close>

fun property :: "string \<Rightarrow> jsval \<Rightarrow> jsval" where
  "property k (JObj kvs) = (case map_of kvs (js k) of None \<Rightarrow> JUndefined | Some v \<Rightarrow> v)"
| "property k v = JUndefined"

subsection \<open>POST /api/chat\<close>

text \<open>
  The fields \<^verbatim>\<open>const { prompt, systemMessage } = req.body\<close> takes from the body, an object
  that \<^verbatim>\<open>express.json()\<close> has parsed; a field that the body does not have is
  \<^verbatim>\<open>undefined\<close>.
\<close>

record chat_body =
  prompt :: jsval
  systemMessage :: jsval

text \<open>\<^verbatim>\<open>!prompt || prompt.trim() === ''\<close>, which may throw.\<close>

definition prompt_missing :: "jsval \<Rightarrow> exn + bool" where
  "prompt_missing p =
     (if \<not> truthy p then Inr True
      else case call_trim p of Inl e \<Rightarrow> Inl e | Inr t \<Rightarrow> Inr (t = JStr []))"

definition default_text :: jsstring where
  "default_text =
     js ''You are a helpful, friendly, and conversational AI assistant. '' @
     js ''Provide clear, concise, and engaging responses. '' @
     js ''Keep your responses conversational and natural, as if speaking to a friend.''"

definition defaultSystemMessage :: "jsval \<Rightarrow> jsval" where
  "defaultSystemMessage sm = js_or sm (JStr default_text)"

text \<open>\<^verbatim>\<open>chatCompletion.choices[0].message.content\<close>: without a first choice it throws.\<close>

fun first_content :: "jsval list \<Rightarrow> exn + jsval" where
  "first_content [] = Inl (TypeError ''Cannot read properties of undefined (reading 'message')'')"
| "first_content (c # cs) = Inr c"

definition audioFileName :: "int \<Rightarrow> jsstring" where
  "audioFileName now = js ''response_'' @ number_to_string now @ js ''.mp3''"

definition audioUrl :: "jsstring \<Rightarrow> jsstring" where
  "audioUrl name = js ''/audio/'' @ name"

text \<open>What a handler leaves behind: its response, the file system, the external calls.\<close>

record outcome =
  reply :: response
  disk :: filesys
  calls :: "call list"

text \<open>The \<^verbatim>\<open>catch\<close> block of the chat route.\<close>

definition chat_catch :: "env \<Rightarrow> exn \<Rightarrow> response" where
  "chat_catch E error =
     (if code error = JStr (js ''insufficient_quota'') then
        res_json 429
          [(''error'', JStr (js ''OpenAI API quota exceeded. Please check your API limits.'')),
           (''type'', JStr (js ''quota_error''))]
      else if code error = JStr (js ''invalid_api_key'') then
        res_json 401
          [(''error'', JStr (js ''Invalid OpenAI API key. Please check your configuration.'')),
           (''type'', JStr (js ''auth_error''))]
      else
        res_json 500
          [(''error'', JStr (js ''Internal server error while processing your request'')),
           (''type'', JStr (js ''server_error'')),
           (''details'',
              if NODE_ENV E = Some (js ''development'') then message error else JUndefined)])"

text \<open>
  The \<^verbatim>\<open>try\<close> block: it ends with a response or with a thrown value, and in both
  cases with the file system and the calls made so far.
\<close>

definition chat_try :: "env \<Rightarrow> provider \<Rightarrow> clock \<Rightarrow> filesys \<Rightarrow> chat_body
    \<Rightarrow> (exn + response) \<times> filesys \<times> call list" where
  "chat_try E P C fs req =
     (case prompt_missing (prompt req) of
        Inl e \<Rightarrow> (Inl e, fs, [])
      | Inr True \<Rightarrow>
          (Inr (res_json 400 [(''error'', JStr (js ''Prompt is required and cannot be empty''))]),
           fs, [])
      | Inr False \<Rightarrow>
          (let sm = defaultSystemMessage (systemMessage req);
               c1 = ChatCompletionsCreate sm (prompt req)
           in case chat_completions_create P sm (prompt req) of
                Inl e \<Rightarrow> (Inl e, fs, [c1])
              | Inr choices \<Rightarrow>
                  (case first_content choices of
                     Inl e \<Rightarrow> (Inl e, fs, [c1])
                   | Inr textResponse \<Rightarrow>
                       (let c2 = AudioSpeechCreate textResponse
                        in case audio_speech_create P textResponse of
                             Inl e \<Rightarrow> (Inl e, fs, [c1, c2])
                           | Inr buffer \<Rightarrow>
                               (let name = audioFileName (dateNow C);
                                    audioFilePath = path_join (audioDir E) name
                                in case writeFileSync fs audioFilePath buffer (fileTime C) of
                                     Inl e \<Rightarrow> (Inl e, fs, [c1, c2])
                                   | Inr fs' \<Rightarrow>
                                       (case get_length (prompt req) of
                                          Inl e \<Rightarrow> (Inl e, fs', [c1, c2])
                                        | Inr promptLength \<Rightarrow>
                                            (case get_length textResponse of
                                               Inl e \<Rightarrow> (Inl e, fs', [c1, c2])
                                             | Inr responseLength \<Rightarrow>
                                                 (Inr (res_json 200
                                                    [(''success'', JBool True),
                                                     (''textResponse'', textResponse),
                                                     (''audioUrl'', JStr (audioUrl name)),
                                                     (''audioFileName'', JStr name),
                                                     (''timestamp'', JStr (isoString C)),
                                                     (''promptLength'', promptLength),
                                                     (''responseLength'', responseLength)]),
                                                  fs', [c1, c2]))))))))"

definition chat :: "env \<Rightarrow> provider \<Rightarrow> clock \<Rightarrow> filesys \<Rightarrow> chat_body \<Rightarrow> outcome" where
  "chat E P C fs req =
     (case chat_try E P C fs req of
        (Inr r, fs', cs) \<Rightarrow> \<lparr>reply = r, disk = fs', calls = cs\<rparr>
      | (Inl error, fs', cs) \<Rightarrow> \<lparr>reply = chat_catch E error, disk = fs', calls = cs\<rparr>)"

subsection \<open>GET /audio/:filename\<close>

text \<open>
  \<open>filename\<close> is \<^verbatim>\<open>req.params.filename\<close>: the segment of the URL after \<^verbatim>\<open>/audio/\<close>,
  percent-decoded by the router, so that an encoded separator (\<^verbatim>\<open>%2F\<close>) arrives as a
  separator. The handler sets the two headers and pipes a read stream of the file into
  the response.
\<close>

definition audio_headers :: "(string \<times> string) list" where
  "audio_headers = [(''Content-Type'', ''audio/mpeg''), (''Accept-Ranges'', ''bytes'')]"

definition audio :: "env \<Rightarrow> filesys \<Rightarrow> jsstring \<Rightarrow> response" where
  "audio E fs filename =
     (let audioFilePath = path_join (audioDir E) filename
      in if \<not> existsSync fs audioFilePath then
           res_json 404 [(''error'', JStr (js ''Audio file not found''))]
         else case createReadStream fs audioFilePath of
                Inr bs \<Rightarrow> Stream audio_headers bs
              | Inl e \<Rightarrow> Aborted audio_headers e)"

subsection \<open>DELETE /api/cleanup\<close>

definition oneHour :: int where
  "oneHour = 60 * 60 * 1000"

text \<open>
  The body of \<^verbatim>\<open>files.forEach\<close>, over the names still to visit, with the file system
  and \<^verbatim>\<open>deletedCount\<close> so far. A throw ends the loop where it is.
\<close>

fun forEach_file :: "path \<Rightarrow> int \<Rightarrow> jsstring list \<Rightarrow> filesys \<Rightarrow> int \<Rightarrow> (exn + int) \<times> filesys" where
  "forEach_file dir now [] fs deletedCount = (Inr deletedCount, fs)"
| "forEach_file dir now (file # files) fs deletedCount =
     (let filePath = path_join dir file
      in case statSync fs filePath of
           Inl e \<Rightarrow> (Inl e, fs)
         | Inr stats \<Rightarrow>
             if now - mtime stats > oneHour then
               (case unlinkSync fs filePath of
                  Inl e \<Rightarrow> (Inl e, fs)
                | Inr fs' \<Rightarrow> forEach_file dir now files fs' (deletedCount + 1))
             else forEach_file dir now files fs deletedCount)"

definition cleanup_failed :: response where
  "cleanup_failed = res_json 500 [(''error'', JStr (js ''Error cleaning up files''))]"

definition cleanup :: "env \<Rightarrow> clock \<Rightarrow> filesys \<Rightarrow> response \<times> filesys" where
  "cleanup E C fs =
     (case readdirSync fs (audioDir E) of
        Inl e \<Rightarrow> (cleanup_failed, fs)
      | Inr files \<Rightarrow>
          (case forEach_file (audioDir E) (dateNow C) files fs 0 of
             (Inl e, fs') \<Rightarrow> (cleanup_failed, fs')
           | (Inr deletedCount, fs') \<Rightarrow>
               (res_json 200
                  [(''message'',
                      JStr (js ''Cleaned up '' @ number_to_string deletedCount @
                            js '' old audio files'')),
                   (''deletedCount'', JNum (of_int deletedCount))],
                fs')))"

subsection \<open>The other routes\<close>

definition health :: "clock \<Rightarrow> response" where
  "health C =
     res_json 200
       [(''status'', JStr (js ''Server is running!'')),
        (''timestamp'', JStr (isoString C)),
        (''version'', JStr (js ''1.0.0''))]"

definition env_value :: "jsstring option \<Rightarrow> jsval" where
  "env_value v = (case v of None \<Rightarrow> JUndefined | Some s \<Rightarrow> JStr s)"

definition path_string :: "path \<Rightarrow> jsstring" where
  "path_string p = concat (map (\<lambda>seg. 0x2F # seg) p)"

definition config :: "env \<Rightarrow> clock \<Rightarrow> response" where
  "config E C =
     res_json 200
       [(''nodeVersion'', JStr (version E)),
        (''environment'', js_or (env_value (NODE_ENV E)) (JStr (js ''development''))),
        (''hasOpenAIKey'', JBool (truthy (env_value (OPENAI_API_KEY E)))),
        (''audioDirectory'', JStr (path_string (audioDir E))),
        (''serverTime'', JStr (isoString C))]"

definition not_found :: response where
  "not_found =
     res_json 404
       [(''error'', JStr (js ''Endpoint not found'')),
        (''availableEndpoints'',
           JArr [JStr (js ''GET /api/health''),
                 JStr (js ''POST /api/chat''),
                 JStr (js ''GET /audio/:filename''),
                 JStr (js ''DELETE /api/cleanup''),
                 JStr (js ''GET /api/config'')])]"

text \<open>
  A request as the router classifies it: one of the five routes, or a request that
  none of them matches and that ends in the final \<^verbatim>\<open>app.use('*', ...)\<close>.
\<close>

datatype request =
    GetHealth
  | PostChat chat_body
  | GetAudio jsstring
  | DeleteCleanup
  | GetConfig
  | Unmatched

fun handle :: "env \<Rightarrow> provider \<Rightarrow> clock \<Rightarrow> filesys \<Rightarrow> request \<Rightarrow> outcome" where
  "handle E P C fs GetHealth = \<lparr>reply = health C, disk = fs, calls = []\<rparr>"
| "handle E P C fs (PostChat req) = chat E P C fs req"
| "handle E P C fs (GetAudio filename) = \<lparr>reply = audio E fs filename, disk = fs, calls = []\<rparr>"
| "handle E P C fs DeleteCleanup =
     (case cleanup E C fs of (r, fs') \<Rightarrow> \<lparr>reply = r, disk = fs', calls = []\<rparr>)"
| "handle E P C fs GetConfig = \<lparr>reply = config E C, disk = fs, calls = []\<rparr>"
| "handle E P C fs Unmatched = \<lparr>reply = not_found, disk = fs, calls = []\<rparr>"

section \<open>Well-formed file systems\<close>

text \<open>
  A segment of a stored path is a name: not empty, without a separator, and neither
  \<^verbatim>\<open>.\<close> nor \<^verbatim>\<open>..\<close>. A file system holds every path once.
\<close>

definition plain :: "jsstring \<Rightarrow> bool" where
  "plain seg \<longleftrightarrow> seg \<noteq> [] \<and> 0x2F \<notin> set seg \<and> seg \<noteq> js ''.'' \<and> seg \<noteq> js ''..''"

definition wf_fs :: "filesys \<Rightarrow> bool" where
  "wf_fs fs \<longleftrightarrow> distinct (map fst fs) \<and> (\<forall>e \<in> set fs. \<forall>seg \<in> set (fst e). plain seg)"

text \<open>
  An entry is older than the threshold of one hour (3600000 milliseconds) when it
  was last modified before \<open>now - 3600000\<close>.
\<close>

definition older_than_threshold :: "int \<Rightarrow> node \<Rightarrow> bool" where
  "older_than_threshold now n \<longleftrightarrow> mtime n < now - 3600000"

text \<open>The paths a run of the clean-up has removed among the entries it has visited.\<close>

definition removed :: "int \<Rightarrow> (path \<times> node) list \<Rightarrow> path set" where
  "removed now es = fst ` {e \<in> set es. older_than_threshold now (snd e)}"

section \<open>A concrete installation\<close>

text \<open>
  The server installed in \<^verbatim>\<open>/app/server\<close> and running in production, a clock reading
  2023-11-14T22:13:20Z, a provider that answers, and providers that fail.
\<close>

definition example_env :: env where
  "example_env =
     \<lparr>NODE_ENV = Some (js ''production''), OPENAI_API_KEY = Some (js ''sk-test''),
      version = js ''v18.0.0'', dirname = [js ''app'', js ''server'']\<rparr>"

definition example_clock :: clock where
  "example_clock =
     \<lparr>dateNow = 1700000000000, fileTime = 1700000000005,
      isoString = js ''2023-11-14T22:13:20.010Z''\<rparr>"

definition example_provider :: provider where
  "example_provider =
     \<lparr>chat_completions_create = (\<lambda>sm p. Inr [JStr (js ''Hello there!'')]),
      audio_speech_create = (\<lambda>t. Inr [0x49, 0x44, 0x33])\<rparr>"

definition failing_provider :: "string \<Rightarrow> provider" where
  "failing_provider c =
     \<lparr>chat_completions_create = (\<lambda>sm p. Inl (Exn (JStr (js c)) (JStr (js ''request failed'')))),
      audio_speech_create = (\<lambda>t. Inr [])\<rparr>"

definition example_disk :: filesys where
  "example_disk =
     [([js ''app''], Dir 1600000000000),
      ([js ''app'', js ''server''], Dir 1600000000000),
      ([js ''app'', js ''server'', js ''index.js''], File 1600000000000 [0x2F, 0x2F]),
      ([js ''app'', js ''server'', js ''public''], Dir 1600000000000),
      ([js ''app'', js ''server'', js ''public'', js ''audio''], Dir 1600000000000)]"

definition example_audio :: path where
  "example_audio = [js ''app'', js ''server'', js ''public'', js ''audio'']"

text \<open>
  Audio directories for the clean-up at that time: one file of nearly three hours and
  one of ten seconds; the latter alone; and two old files with an old subdirectory
  listed between them.
\<close>

definition old_file :: "string \<Rightarrow> path \<times> node" where
  "old_file name = (example_audio @ [js name], File 1699990000000 [0x49, 0x44, 0x33])"

definition new_file :: "string \<Rightarrow> path \<times> node" where
  "new_file name = (example_audio @ [js name], File 1699999990000 [0x49, 0x44, 0x33])"

definition old_dir :: "string \<Rightarrow> path \<times> node" where
  "old_dir name = (example_audio @ [js name], Dir 1699990000000)"

text \<open>
  Requests with a prompt alone and with a system message, the file a successful chat
  request writes at clock reading \<open>C\<close>, and a clock one millisecond later.
\<close>

definition plain_request :: "string \<Rightarrow> chat_body" where
  "plain_request p = \<lparr>prompt = JStr (js p), systemMessage = JUndefined\<rparr>"

definition styled_request :: "string \<Rightarrow> string \<Rightarrow> chat_body" where
  "styled_request p sm = \<lparr>prompt = JStr (js p), systemMessage = JStr (js sm)\<rparr>"

definition example_file :: "clock \<Rightarrow> path \<times> node" where
  "example_file C =
     (example_audio @ [audioFileName (dateNow C)], File (fileTime C) [0x49, 0x44, 0x33])"

definition later_clock :: clock where
  "later_clock = example_clock\<lparr>dateNow := 1700000000001\<rparr>"

section \<open>Strings and numbers\<close>

declare digits.simps [simp del]

lemma trim_Nil: "trim [] = []"
  by (simp add: trim_def)

lemma unat_of_char: "unat (of_char c :: 16 word) = of_char c"
proof -
  have "(of_char c :: nat) < 256" by simp
  then have "(of_char c :: nat) < 2 ^ 16" by (rule less_trans) simp
  then have "(of_char c :: nat) mod 2 ^ 16 = of_char c" by (rule mod_less)
  moreover have "(of_char c :: 16 word) = of_nat (of_char c)" by (simp add: of_nat_of_char)
  ultimately show ?thesis by (simp add: unat_of_nat)
qed

lemma of_char_word_inj: "(of_char a :: 16 word) = of_char b \<longleftrightarrow> a = b"
proof
  assume "(of_char a :: 16 word) = of_char b"
  then have "unat (of_char a :: 16 word) = unat (of_char b :: 16 word)" by simp
  then have "(of_char a :: nat) = of_char b" by (simp only: unat_of_char)
  then show "a = b" by (metis char_of_char)
qed simp

lemma js_inj: "js a = js b \<longleftrightarrow> a = b"
proof -
  have "inj (of_char :: char \<Rightarrow> 16 word)" by (simp add: inj_def of_char_word_inj)
  then show ?thesis by (simp add: js_def inj_map_eq_map)
qed

lemma digits_ne: "digits n \<noteq> []" "[] \<noteq> digits n"
  by (subst digits.simps, simp)+

lemma unat_digit:
  assumes "d < 10"
  shows "unat (digit d) = 48 + d"
proof -
  have "unat (of_nat (48 + d) :: 16 word) = (48 + d) mod 2 ^ LENGTH(16)"
    by (rule unat_of_nat)
  also have "\<dots> = 48 + d" using assms by simp
  finally show ?thesis by (simp only: digit_def)
qed

lemma digit_inj: "a < 10 \<Longrightarrow> b < 10 \<Longrightarrow> digit a = digit b \<longleftrightarrow> a = b"
  by (metis unat_digit add_left_cancel)

lemma digits_inj: "digits m = digits n \<Longrightarrow> m = n"
proof (induction m arbitrary: n rule: digits.induct)
  case (1 m)
  show ?case
  proof (cases "m < 10")
    case True
    then have dm: "digits m = [digit m]" by (subst digits.simps) simp
    show ?thesis
    proof (cases "n < 10")
      case True
      then have "digits n = [digit n]" by (subst digits.simps) simp
      with dm "1.prems" True \<open>m < 10\<close> show ?thesis by (simp add: digit_inj)
    next
      case False
      then have "digits n = digits (n div 10) @ [digit (n mod 10)]" by (subst digits.simps) simp
      with dm "1.prems" digits_ne show ?thesis by simp
    qed
  next
    case False
    then have dm: "digits m = digits (m div 10) @ [digit (m mod 10)]" by (subst digits.simps) simp
    show ?thesis
    proof (cases "n < 10")
      case True
      then have "digits n = [digit n]" by (subst digits.simps) simp
      with dm "1.prems" digits_ne show ?thesis by simp
    next
      case large: False
      then have "digits n = digits (n div 10) @ [digit (n mod 10)]" by (subst digits.simps) simp
      with dm "1.prems" have a: "digits (m div 10) = digits (n div 10)"
        and b: "digit (m mod 10) = digit (n mod 10)"
        by simp_all
      from "1.IH"[OF False a] have "m div 10 = n div 10" .
      moreover from b have "m mod 10 = n mod 10" by (simp add: digit_inj)
      ultimately show ?thesis by (metis div_mult_mod_eq)
    qed
  qed
qed

lemma digits_are_digits: "c \<in> set (digits n) \<Longrightarrow> 0x30 \<le> c \<and> c \<le> 0x39"
proof (induction n rule: digits.induct)
  case (1 n)
  have d: "0x30 \<le> digit k \<and> digit k \<le> 0x39" if "k < 10" for k
    using that by (simp add: word_le_nat_alt unat_digit)
  show ?case
  proof (cases "n < 10")
    case True
    then have "digits n = [digit n]" by (subst digits.simps) simp
    with "1.prems" d[OF True] show ?thesis by simp
  next
    case False
    then have "digits n = digits (n div 10) @ [digit (n mod 10)]" by (subst digits.simps) simp
    with "1.prems" "1.IH"[OF False] d[of "n mod 10"] show ?thesis by auto
  qed
qed

lemma minus_not_digit: "0x2D # xs \<noteq> digits n"
proof
  assume "0x2D # xs = digits n"
  then have "0x2D \<in> set (digits n)" by (metis list.set_intros(1))
  from digits_are_digits[OF this] show False by simp
qed

lemma number_to_string_inj: "number_to_string a = number_to_string b \<longleftrightarrow> a = b"
proof
  assume eq: "number_to_string a = number_to_string b"
  show "a = b"
  proof (cases "a < 0"; cases "b < 0")
    assume "a < 0" "b < 0"
    with eq have "nat (- a) = nat (- b)" by (simp add: number_to_string_def digits_inj)
    with \<open>a < 0\<close> \<open>b < 0\<close> show ?thesis by simp
  next
    assume "a < 0" "\<not> b < 0"
    with eq minus_not_digit show ?thesis by (simp add: number_to_string_def)
  next
    assume "\<not> a < 0" "b < 0"
    with eq minus_not_digit[of "digits (nat (- b))" "nat a"] show ?thesis
      by (simp add: number_to_string_def)
  next
    assume "\<not> a < 0" "\<not> b < 0"
    with eq have "nat a = nat b" by (simp add: number_to_string_def digits_inj)
    with \<open>\<not> a < 0\<close> \<open>\<not> b < 0\<close> show ?thesis by simp
  qed
qed simp

lemma audioFileName_inj: "audioFileName a = audioFileName b \<longleftrightarrow> a = b"
  by (simp add: audioFileName_def number_to_string_inj)

section \<open>Responses\<close>

lemma status_res_json: "status (res_json st props) = Some st"
  by (simp add: res_json_def)

lemma property_res_json:
  "distinct (map fst props) \<Longrightarrow>
   property k (body (res_json st props)) =
     (case map_of props k of None \<Rightarrow> JUndefined | Some v \<Rightarrow> v)"
proof (induction props)
  case Nil
  then show ?case by (simp add: res_json_def)
next
  case (Cons a props)
  then have ih: "property k (body (res_json st props)) =
      (case map_of props k of None \<Rightarrow> JUndefined | Some v \<Rightarrow> v)"
    by simp
  obtain k' v where a: "a = (k', v)" by (cases a)
  show ?case
  proof (cases "k' = k")
    case True
    then have "map_of props k = None" using Cons.prems a
      by (simp add: map_of_eq_None_iff)
    then show ?thesis using True a ih by (auto simp: res_json_def js_inj)
  next
    case False
    then show ?thesis using a ih by (auto simp: res_json_def js_inj)
  qed
qed

lemma status_chat_catch: "status (chat_catch E e) \<in> {Some 429, Some 401, Some 500}"
  by (simp add: chat_catch_def status_res_json)

lemma status_chat_catch_neq: "status (chat_catch E e) \<noteq> Some 200"
  using status_chat_catch[of E e] by auto

section \<open>The chat route: validation\<close>

lemma prompt_ok: "trim s \<noteq> [] \<Longrightarrow> prompt_missing (JStr s) = Inr False"
  by (auto simp: prompt_missing_def trim_Nil)

lemma prompt_missing_False:
  "prompt_missing p = Inr False \<Longrightarrow> \<exists>s. p = JStr s \<and> trim s \<noteq> []"
  by (cases p) (auto simp: prompt_missing_def split: if_splits)

lemma truthy_nonstring_trim:
  "truthy p \<Longrightarrow> (\<forall>s. p \<noteq> JStr s) \<Longrightarrow> \<exists>m. call_trim p = Inl (TypeError m)"
  by (cases p) auto

text \<open>
  C1. A chat request whose prompt is absent, empty (or falsy in any other way) or a
  string of white space only is answered with status 400 and the body
  \<^verbatim>\<open>{"error":"Prompt is required and cannot be empty"}\<close>; no call to the provider is made
  and the file system is left as it was.
\<close>

theorem chat_rejects_blank_prompt:
  assumes "\<not> truthy (prompt req) \<or> (\<exists>s. prompt req = JStr s \<and> trim s = [])"
  shows "chat E P C fs req =
     \<lparr>reply = Json 400
        (JObj [(js ''error'', JStr (js ''Prompt is required and cannot be empty''))]),
      disk = fs, calls = []\<rparr>"
proof -
  have "prompt_missing (prompt req) = Inr True"
    using assms by (auto simp: prompt_missing_def)
  then show ?thesis
    by (simp add: chat_def chat_try_def res_json_def)
qed

theorem chat_rejects_blank_prompt_witness:
  "chat example_env example_provider example_clock example_disk
     \<lparr>prompt = JStr (js ''   ''), systemMessage = JUndefined\<rparr> =
   \<lparr>reply = Json 400
      (JObj [(js ''error'', JStr (js ''Prompt is required and cannot be empty''))]),
    disk = example_disk, calls = []\<rparr>
   \<and> chat example_env example_provider example_clock example_disk
     \<lparr>prompt = JUndefined, systemMessage = JUndefined\<rparr> =
   \<lparr>reply = Json 400
      (JObj [(js ''error'', JStr (js ''Prompt is required and cannot be empty''))]),
    disk = example_disk, calls = []\<rparr>"
proof -
  have "trim (js ''   '') = []"
    by (simp add: js_def trim_def isWhiteSpace_def)
  then show ?thesis
    using chat_rejects_blank_prompt
            [of "\<lparr>prompt = JStr (js ''   ''), systemMessage = JUndefined\<rparr>"
                example_env example_provider example_clock example_disk]
          chat_rejects_blank_prompt
            [of "\<lparr>prompt = JUndefined, systemMessage = JUndefined\<rparr>"
                example_env example_provider example_clock example_disk]
    by simp
qed

section \<open>Paths and the clean-up loop\<close>

lemma split_on_no_sep: "d \<notin> set s \<Longrightarrow> split_on d s = [s]"
  by (induction s) auto

lemma path_join_plain: "plain name \<Longrightarrow> path_join d name = d @ [name]"
  by (cases name rule: rev_cases)
     (auto simp: path_join_def plain_def split_on_no_sep normalize_step_def)

lemma audioDir_eq: "audioDir E = dirname E @ [js ''public'', js ''audio'']"
  by (simp add: audioDir_def path_join_plain plain_def js_def)

lemma map_of_filter_fst:
  "map_of (filter (\<lambda>x. fst x \<noteq> p) fs) q = (if q = p then None else map_of fs q)"
  by (induction fs) auto

lemma older_iff: "older_than_threshold now n \<longleftrightarrow> now - mtime n > oneHour"
  by (auto simp: older_than_threshold_def oneHour_def)

lemma forEach_prefix:
  assumes "distinct (map fst (pre @ rest))"
    and "\<forall>e \<in> set (pre @ rest). map_of fs (fst e) = Some (snd e) \<and> fst e \<noteq> [] \<and> butlast (fst e) = dir \<and> plain (last (fst e))"
    and "\<forall>e \<in> set pre. older_than_threshold now (snd e) \<longrightarrow> (\<forall>t. snd e \<noteq> Dir t)"
  shows "forEach_file dir now (map (\<lambda>e. last (fst e)) (pre @ rest)) fs k =
         forEach_file dir now (map (\<lambda>e. last (fst e)) rest)
           (filter (\<lambda>x. fst x \<notin> removed now pre) fs)
           (k + int (length (filter (\<lambda>e. older_than_threshold now (snd e)) pre)))"
  using assms
proof (induction pre arbitrary: fs k)
  case Nil
  then show ?case by (simp add: removed_def)
next
  case (Cons e pre)
  obtain p n where e: "e = (p, n)" by (cases e)
  from Cons.prems(2) e have look: "map_of fs p = Some n" and pne: "p \<noteq> []"
    and bl: "butlast p = dir" and pl: "plain (last p)" by auto
  have pj: "path_join dir (last p) = p"
    using pne bl pl by (simp add: path_join_plain) (metis append_butlast_last_id)
  have lastne: "last p \<noteq> []" using pl by (simp add: plain_def)
  have res: "resolve fs p = Some n" using look pne lastne by (simp add: resolve_def)
  show ?case
  proof (cases "older_than_threshold now n")
    case False
    have "removed now (e # pre) = removed now pre"
      using False e by (auto simp: removed_def)
    moreover have "forEach_file dir now (map (\<lambda>e. last (fst e)) ((e # pre) @ rest)) fs k
        = forEach_file dir now (map (\<lambda>e. last (fst e)) (pre @ rest)) fs k"
      using False e pj res by (simp add: statSync_def older_iff)
    moreover have "forEach_file dir now (map (\<lambda>e. last (fst e)) (pre @ rest)) fs k = 
       forEach_file dir now (map (\<lambda>e. last (fst e)) rest)
           (filter (\<lambda>x. fst x \<notin> removed now pre) fs)
           (k + int (length (filter (\<lambda>e. older_than_threshold now (snd e)) pre)))"
      using Cons.prems by (intro Cons.IH) auto
    ultimately show ?thesis using False e by simp
  next
    case True
    then obtain t b where n: "n = File t b" using Cons.prems(3) e by (cases n) auto
    let ?fs1 = "filter (\<lambda>x. fst x \<noteq> p) fs"
    have step: "forEach_file dir now (map (\<lambda>e. last (fst e)) ((e # pre) @ rest)) fs k
        = forEach_file dir now (map (\<lambda>e. last (fst e)) (pre @ rest)) ?fs1 (k + 1)"
      using True e pj res n by (simp add: statSync_def unlinkSync_def older_iff)
    have notin: "\<forall>e' \<in> set (pre @ rest). fst e' \<noteq> p"
      using Cons.prems(1) e by auto
    have ih: "forEach_file dir now (map (\<lambda>e. last (fst e)) (pre @ rest)) ?fs1 (k + 1) = 
       forEach_file dir now (map (\<lambda>e. last (fst e)) rest)
           (filter (\<lambda>x. fst x \<notin> removed now pre) ?fs1)
           (k + 1 + int (length (filter (\<lambda>e. older_than_threshold now (snd e)) pre)))"
    proof (intro Cons.IH)
      show "distinct (map fst (pre @ rest))" using Cons.prems(1) by simp
      show "\<forall>e\<in>set (pre @ rest). map_of ?fs1 (fst e) = Some (snd e) \<and> fst e \<noteq> [] \<and> butlast (fst e) = dir \<and> plain (last (fst e))"
        using Cons.prems(2) notin by (simp add: map_of_filter_fst)
      show "\<forall>e\<in>set pre. older_than_threshold now (snd e) \<longrightarrow> (\<forall>t. snd e \<noteq> Dir t)"
        using Cons.prems(3) by simp
    qed
    have rem: "removed now (e # pre) = insert p (removed now pre)"
      using True e by (force simp: removed_def)
    have fil: "filter (\<lambda>x. fst x \<notin> removed now pre) ?fs1 = filter (\<lambda>x. fst x \<notin> removed now (e # pre)) fs"
      by (auto simp: rem intro: filter_cong)
    have cnt: "k + 1 + int (length (filter (\<lambda>e. older_than_threshold now (snd e)) pre))
        = k + int (length (filter (\<lambda>e. older_than_threshold now (snd e)) (e # pre)))"
      using True e by simp
    show ?thesis by (simp only: step ih fil cnt)
  qed
qed

lemma entries_facts:
  assumes "wf_fs fs"
  shows "distinct (map fst (entries fs d))"
    and "\<forall>e \<in> set (entries fs d). map_of fs (fst e) = Some (snd e) \<and> fst e \<noteq> [] \<and> butlast (fst e) = d \<and> plain (last (fst e))"
proof -
  from assms have d: "distinct (map fst fs)" and p: "\<forall>e \<in> set fs. \<forall>seg \<in> set (fst e). plain seg"
    by (auto simp: wf_fs_def)
  show "distinct (map fst (entries fs d))"
    using d by (simp add: entries_def distinct_map_filter)
  show "\<forall>e \<in> set (entries fs d). map_of fs (fst e) = Some (snd e) \<and> fst e \<noteq> [] \<and> butlast (fst e) = d \<and> plain (last (fst e))"
    using d p by (auto simp: entries_def)
qed

lemma removed_entries:
  assumes "wf_fs fs" "x \<in> set fs"
  shows "fst x \<in> removed now (entries fs d) \<longleftrightarrow> x \<in> set (entries fs d) \<and> older_than_threshold now (snd x)"
proof
  assume "fst x \<in> removed now (entries fs d)"
  then obtain e where e: "e \<in> set (entries fs d)" "older_than_threshold now (snd e)" "fst e = fst x"
    by (auto simp: removed_def)
  then have "e \<in> set fs" by (simp add: entries_def)
  with assms e(3) have "e = x"
    by (metis wf_fs_def eq_key_imp_eq_value prod.collapse)
  with e show "x \<in> set (entries fs d) \<and> older_than_threshold now (snd x)" by simp
next
  assume "x \<in> set (entries fs d) \<and> older_than_threshold now (snd x)"
  then show "fst x \<in> removed now (entries fs d)" by (auto simp: removed_def)
qed

lemma map_of_filter_keys:
  "k \<notin> S \<Longrightarrow> map_of (filter (\<lambda>x. fst x \<notin> S) fs) k = map_of fs k"
  by (induction fs) auto

lemma wf_fs_unique:
  assumes "wf_fs fs" "x \<in> set fs" "e \<in> set fs" "fst e = fst x"
  shows "e = x"
proof -
  have "distinct (map fst fs)" using assms(1) by (simp add: wf_fs_def)
  moreover have "(fst x, snd x) \<in> set fs" "(fst x, snd e) \<in> set fs"
    using assms(2,3,4) by (simp_all add: prod_eq_iff[symmetric]) (metis prod.collapse)
  ultimately have "snd x = snd e" by (rule eq_key_imp_eq_value)
  then show ?thesis using assms(4) by (simp add: prod_eq_iff)
qed

lemma entries_subset: "set (entries fs d) \<subseteq> set fs"
  by (simp add: entries_def)

lemma resolve_plain: "p \<noteq> [] \<Longrightarrow> last p \<noteq> [] \<Longrightarrow> resolve fs p = map_of fs p"
  by (simp add: resolve_def)

lemma resolve_audioDir: "resolve fs (audioDir E) = map_of fs (audioDir E)"
  by (simp add: resolve_def audioDir_eq js_def)

subsection \<open>The concrete audio directories\<close>

lemma audioDir_example: "audioDir example_env = example_audio"
  by (simp add: audioDir_eq example_env_def example_audio_def)

lemma plain_js:
  "plain (js ''app'')" "plain (js ''server'')" "plain (js ''public'')" "plain (js ''audio'')"
  "plain (js ''index.js'')" "plain (js ''a.mp3'')" "plain (js ''b.mp3'')" "plain (js ''keep'')"
  by (simp_all add: plain_def js_def)

lemma wf_new: "wf_fs (example_disk @ [new_file ''b.mp3''])"
  by (simp add: wf_fs_def example_disk_def new_file_def example_audio_def js_inj plain_js)

lemma entries_new:
  "entries (example_disk @ [new_file ''b.mp3'']) example_audio = [new_file ''b.mp3'']"
  by (simp add: entries_def example_disk_def new_file_def example_audio_def js_inj)

lemma wf_old_new: "wf_fs (example_disk @ [old_file ''a.mp3'', new_file ''b.mp3''])"
  by (simp add: wf_fs_def example_disk_def old_file_def new_file_def example_audio_def js_inj
        plain_js)

lemma entries_old_new:
  "entries (example_disk @ [old_file ''a.mp3'', new_file ''b.mp3'']) example_audio =
     [old_file ''a.mp3'', new_file ''b.mp3'']"
  by (simp add: entries_def example_disk_def old_file_def new_file_def example_audio_def js_inj)

lemma wf_old_dir: "wf_fs (example_disk @ [old_file ''a.mp3'', old_dir ''keep'', old_file ''b.mp3''])"
  by (simp add: wf_fs_def example_disk_def old_file_def old_dir_def example_audio_def js_inj
        plain_js)

lemma entries_old_dir:
  "entries (example_disk @ [old_file ''a.mp3'', old_dir ''keep'', old_file ''b.mp3''])
     example_audio =
   [old_file ''a.mp3''] @ (example_audio @ [js ''keep''], Dir 1699990000000) #
   [old_file ''b.mp3'']"
  by (simp add: entries_def example_disk_def old_file_def old_dir_def example_audio_def js_inj)

lemma example_ages:
  "older_than_threshold (dateNow example_clock) (snd (old_file a))"
  "\<not> older_than_threshold (dateNow example_clock) (snd (new_file b))"
  "older_than_threshold (dateNow example_clock) (Dir 1699990000000)"
  by (simp_all add: older_than_threshold_def old_file_def new_file_def example_clock_def)

lemma small_numbers: "number_to_string 0 = js ''0''" "number_to_string 1 = js ''1''"
  by (simp_all add: number_to_string_def digits.simps digit_def js_def)

text \<open>
  C3. With an audio directory in which nothing older than the threshold is a
  subdirectory, the clean-up answers 200, removes exactly the entries of the audio
  directory that are older than one hour and reports their number as
  \<^verbatim>\<open>deletedCount\<close>: 0 when every file is newer, 1 when exactly one is older.
\<close>

theorem cleanup_deletes_exactly_old_files:
  assumes wf: "wf_fs fs"
    and dir: "map_of fs (audioDir E) = Some (Dir t)"
    and files: "\<forall>e \<in> set (entries fs (audioDir E)).
                  older_than_threshold (dateNow C) (snd e) \<longrightarrow> (\<forall>t. snd e \<noteq> Dir t)"
  shows "cleanup E C fs =
    (Json 200 (JObj
       [(js ''message'',
         JStr (js ''Cleaned up '' @
               number_to_string (int (length (filter (\<lambda>e. older_than_threshold (dateNow C) (snd e))
                 (entries fs (audioDir E))))) @
               js '' old audio files'')),
        (js ''deletedCount'',
         JNum (of_nat (length (filter (\<lambda>e. older_than_threshold (dateNow C) (snd e))
                 (entries fs (audioDir E))))))]),
     filter (\<lambda>e. \<not> (e \<in> set (entries fs (audioDir E)) \<and> older_than_threshold (dateNow C) (snd e))) fs)"
proof -
  let ?es = "entries fs (audioDir E)"
  let ?now = "dateNow C"
  have rd: "readdirSync fs (audioDir E) = Inr (map (\<lambda>e. last (fst e)) ?es)"
    using dir by (simp add: readdirSync_def resolve_audioDir)
  have "forEach_file (audioDir E) ?now (map (\<lambda>e. last (fst e)) (?es @ [])) fs 0 =
        forEach_file (audioDir E) ?now (map (\<lambda>e. last (fst e)) ([] :: (path \<times> node) list))
          (filter (\<lambda>x. fst x \<notin> removed ?now ?es) fs)
          (0 + int (length (filter (\<lambda>e. older_than_threshold ?now (snd e)) ?es)))"
  proof (rule forEach_prefix)
    show "distinct (map fst (?es @ []))"
      using entries_facts(1)[OF wf] by simp
    show "\<forall>e\<in>set (?es @ []). map_of fs (fst e) = Some (snd e) \<and> fst e \<noteq> [] \<and>
            butlast (fst e) = audioDir E \<and> plain (last (fst e))"
      using entries_facts(2)[OF wf] by simp
    show "\<forall>e\<in>set ?es. older_than_threshold ?now (snd e) \<longrightarrow> (\<forall>t. snd e \<noteq> Dir t)"
      using files .
  qed
  moreover have "filter (\<lambda>x. fst x \<notin> removed ?now ?es) fs =
      filter (\<lambda>e. \<not> (e \<in> set ?es \<and> older_than_threshold ?now (snd e))) fs"
    using removed_entries[OF wf] by (intro filter_cong) auto
  ultimately have loop: "forEach_file (audioDir E) ?now (map (\<lambda>e. last (fst e)) ?es) fs 0 =
      (Inr (int (length (filter (\<lambda>e. older_than_threshold ?now (snd e)) ?es))),
       filter (\<lambda>e. \<not> (e \<in> set ?es \<and> older_than_threshold ?now (snd e))) fs)"
    by simp
  show ?thesis
    by (simp add: cleanup_def rd loop res_json_def)
qed

theorem cleanup_deletes_exactly_old_files_witness:
  "cleanup example_env example_clock (example_disk @ [old_file ''a.mp3'', new_file ''b.mp3'']) =
     (Json 200 (JObj [(js ''message'', JStr (js ''Cleaned up 1 old audio files'')),
                      (js ''deletedCount'', JNum 1)]),
      example_disk @ [new_file ''b.mp3''])
   \<and> cleanup example_env example_clock (example_disk @ [new_file ''b.mp3'']) =
     (Json 200 (JObj [(js ''message'', JStr (js ''Cleaned up 0 old audio files'')),
                      (js ''deletedCount'', JNum 0)]),
      example_disk @ [new_file ''b.mp3''])"
proof
  let ?fs = "example_disk @ [old_file ''a.mp3'', new_file ''b.mp3'']"
  have dir: "map_of ?fs (audioDir example_env) = Some (Dir 1600000000000)"
    by (simp add: audioDir_example example_audio_def example_disk_def js_inj)
  have files: "\<forall>e \<in> set (entries ?fs (audioDir example_env)).
      older_than_threshold (dateNow example_clock) (snd e) \<longrightarrow> (\<forall>t. snd e \<noteq> Dir t)"
    unfolding audioDir_example entries_old_new by (simp add: old_file_def new_file_def)
  have cnt: "filter (\<lambda>e. older_than_threshold (dateNow example_clock) (snd e))
      [old_file ''a.mp3'', new_file ''b.mp3''] = [old_file ''a.mp3'']"
    using example_ages by simp
  have keep: "filter (\<lambda>e. \<not> (e \<in> set [old_file ''a.mp3'', new_file ''b.mp3''] \<and>
        older_than_threshold (dateNow example_clock) (snd e))) ?fs =
      example_disk @ [new_file ''b.mp3'']"
    by (simp add: example_disk_def old_file_def new_file_def example_audio_def js_inj
          older_than_threshold_def example_clock_def)
  show "cleanup example_env example_clock ?fs =
     (Json 200 (JObj [(js ''message'', JStr (js ''Cleaned up 1 old audio files'')),
                      (js ''deletedCount'', JNum 1)]),
      example_disk @ [new_file ''b.mp3''])"
    unfolding cleanup_deletes_exactly_old_files[OF wf_old_new dir files]
      audioDir_example entries_old_new cnt keep
    by (simp add: small_numbers js_def)
next
  let ?fs = "example_disk @ [new_file ''b.mp3'']"
  have dir: "map_of ?fs (audioDir example_env) = Some (Dir 1600000000000)"
    by (simp add: audioDir_example example_audio_def example_disk_def js_inj)
  have files: "\<forall>e \<in> set (entries ?fs (audioDir example_env)).
      older_than_threshold (dateNow example_clock) (snd e) \<longrightarrow> (\<forall>t. snd e \<noteq> Dir t)"
    unfolding audioDir_example entries_new by (simp add: new_file_def)
  have cnt: "filter (\<lambda>e. older_than_threshold (dateNow example_clock) (snd e))
      [new_file ''b.mp3''] = []"
    using example_ages by simp
  have keep: "filter (\<lambda>e. \<not> (e \<in> set [new_file ''b.mp3''] \<and>
        older_than_threshold (dateNow example_clock) (snd e))) ?fs = ?fs"
    by (simp add: example_disk_def new_file_def example_audio_def js_inj
          older_than_threshold_def example_clock_def)
  show "cleanup example_env example_clock ?fs =
     (Json 200 (JObj [(js ''message'', JStr (js ''Cleaned up 0 old audio files'')),
                      (js ''deletedCount'', JNum 0)]), ?fs)"
    unfolding cleanup_deletes_exactly_old_files[OF wf_new dir files]
      audioDir_example entries_new cnt keep
    by (simp add: small_numbers js_def)
qed

text \<open>
  C10. The clean-up is not atomic: when the scan reaches a subdirectory older than the
  threshold, \<^verbatim>\<open>unlink\<close> throws and the route answers 500 with an error only (no
  \<^verbatim>\<open>deletedCount\<close>), while the old files visited before it stay deleted and the
  entries after it are untouched.
\<close>

theorem cleanup_not_atomic:
  assumes wf: "wf_fs fs"
    and dir: "map_of fs (audioDir E) = Some (Dir t)"
    and split: "entries fs (audioDir E) = before @ (p, Dir m) # after"
    and old: "older_than_threshold (dateNow C) (Dir m)"
    and files: "\<forall>e \<in> set before. older_than_threshold (dateNow C) (snd e) \<longrightarrow> (\<forall>t. snd e \<noteq> Dir t)"
  shows "cleanup E C fs =
    (Json 500 (JObj [(js ''error'', JStr (js ''Error cleaning up files''))]),
     filter (\<lambda>e. \<not> (e \<in> set before \<and> older_than_threshold (dateNow C) (snd e))) fs)"
proof -
  let ?now = "dateNow C"
  let ?fs1 = "filter (\<lambda>x. fst x \<notin> removed ?now before) fs"
  note ef = entries_facts[OF wf, of "audioDir E", unfolded split]
  define files where "files = map (\<lambda>e. last (fst e)) (before @ (p, Dir m) # after)"
  have rd: "readdirSync fs (audioDir E) = Inr files"
    using dir split by (simp add: readdirSync_def resolve_audioDir files_def)
  have pre: "forEach_file (audioDir E) ?now (map (\<lambda>e. last (fst e)) (before @ (p, Dir m) # after)) fs 0 =
        forEach_file (audioDir E) ?now (map (\<lambda>e. last (fst e)) ((p, Dir m) # after)) ?fs1
          (0 + int (length (filter (\<lambda>e. older_than_threshold ?now (snd e)) before)))"
  proof (rule forEach_prefix)
    show "distinct (map fst (before @ (p, Dir m) # after))"
      using ef(1) .
    show "\<forall>e\<in>set (before @ (p, Dir m) # after). map_of fs (fst e) = Some (snd e) \<and> fst e \<noteq> [] \<and>
            butlast (fst e) = audioDir E \<and> plain (last (fst e))"
      using ef(2) .
    show "\<forall>e\<in>set before. older_than_threshold ?now (snd e) \<longrightarrow> (\<forall>t. snd e \<noteq> Dir t)"
      using files .
  qed
  have pfacts: "map_of fs p = Some (Dir m)" "p \<noteq> []" "butlast p = audioDir E" "plain (last p)"
    using ef(2) by simp_all
  have "p \<notin> fst ` set before"
    using ef(1) by simp
  then have "p \<notin> removed ?now before"
    by (auto simp: removed_def)
  then have "map_of ?fs1 p = Some (Dir m)"
    using pfacts(1) by (simp add: map_of_filter_keys)
  moreover have "last p \<noteq> []" using pfacts(4) by (simp add: plain_def)
  ultimately have res: "resolve ?fs1 p = Some (Dir m)"
    using pfacts(2) by (simp add: resolve_def)
  have "audioDir E @ [last p] = p"
    using pfacts(2,3) append_butlast_last_id by fastforce
  then have pj: "path_join (audioDir E) (last p) = p"
    using pfacts(4) by (simp add: path_join_plain)
  have stop: "forEach_file (audioDir E) ?now (map (\<lambda>e. last (fst e)) ((p, Dir m) # after)) ?fs1 k =
      (Inl (SystemError ''EISDIR''), ?fs1)" for k
    using old by (simp add: pj statSync_def unlinkSync_def res older_iff)
  have sub: "set before \<subseteq> set fs"
    using entries_subset[of fs "audioDir E"] split by simp
  have fil: "?fs1 = filter (\<lambda>e. \<not> (e \<in> set before \<and> older_than_threshold ?now (snd e))) fs"
  proof (rule filter_cong[OF refl])
    fix x assume x: "x \<in> set fs"
    have "\<And>e. e \<in> set before \<Longrightarrow> fst e = fst x \<Longrightarrow> e = x"
      using wf_fs_unique[OF wf x] sub by blast
    then show "(fst x \<notin> removed ?now before) = (\<not> (x \<in> set before \<and> older_than_threshold ?now (snd x)))"
      by (auto simp: removed_def)
  qed
  have "forEach_file (audioDir E) ?now files fs 0 = (Inl (SystemError ''EISDIR''), ?fs1)"
    unfolding files_def by (simp only: pre stop)
  also have "\<dots> = (Inl (SystemError ''EISDIR''),
       filter (\<lambda>e. \<not> (e \<in> set before \<and> older_than_threshold ?now (snd e))) fs)"
    by (simp only: fil)
  finally have loop: "forEach_file (audioDir E) ?now files fs 0 =
      (Inl (SystemError ''EISDIR''),
       filter (\<lambda>e. \<not> (e \<in> set before \<and> older_than_threshold ?now (snd e))) fs)" .
  show ?thesis
    by (simp add: cleanup_def rd loop cleanup_failed_def res_json_def)
qed

theorem cleanup_not_atomic_witness:
  "cleanup example_env example_clock
     (example_disk @ [old_file ''a.mp3'', old_dir ''keep'', old_file ''b.mp3'']) =
   (Json 500 (JObj [(js ''error'', JStr (js ''Error cleaning up files''))]),
    example_disk @ [old_dir ''keep'', old_file ''b.mp3''])"
proof -
  let ?fs = "example_disk @ [old_file ''a.mp3'', old_dir ''keep'', old_file ''b.mp3'']"
  have dir: "map_of ?fs (audioDir example_env) = Some (Dir 1600000000000)"
    by (simp add: audioDir_example example_audio_def example_disk_def js_inj)
  have split: "entries ?fs (audioDir example_env) =
      [old_file ''a.mp3''] @ (example_audio @ [js ''keep''], Dir 1699990000000) #
      [old_file ''b.mp3'']"
    unfolding audioDir_example by (rule entries_old_dir)
  have files: "\<forall>e \<in> set [old_file ''a.mp3''].
      older_than_threshold (dateNow example_clock) (snd e) \<longrightarrow> (\<forall>t. snd e \<noteq> Dir t)"
    by (simp add: old_file_def)
  have keep: "filter (\<lambda>e. \<not> (e \<in> set [old_file ''a.mp3''] \<and>
        older_than_threshold (dateNow example_clock) (snd e))) ?fs =
      example_disk @ [old_dir ''keep'', old_file ''b.mp3'']"
    by (simp add: example_disk_def old_file_def old_dir_def example_audio_def js_inj
          older_than_threshold_def example_clock_def)
  show ?thesis
    unfolding cleanup_not_atomic[OF wf_old_dir dir split example_ages(3) files] keep
    by (rule refl)
qed

section \<open>The chat route: calls, success and failure\<close>

lemma first_content_Inr: "first_content cs = Inr t \<Longrightarrow> \<exists>choices. cs = t # choices"
  by (cases cs) auto

lemma chat_calls_shape:
  assumes "prompt req = JStr s" "trim s \<noteq> []"
  shows "calls (chat E P C fs req) =
           [ChatCompletionsCreate (defaultSystemMessage (systemMessage req)) (JStr s)]
       \<or> (\<exists>t. calls (chat E P C fs req) =
           [ChatCompletionsCreate (defaultSystemMessage (systemMessage req)) (JStr s),
            AudioSpeechCreate t])"
  using assms
  by (auto simp: chat_def chat_try_def prompt_ok Let_def split: sum.splits)

lemma default_text_literal:
  "default_text = js (''You are a helpful, friendly, and conversational AI assistant. '' @
     ''Provide clear, concise, and engaging responses. '' @
     ''Keep your responses conversational and natural, as if speaking to a friend.'')"
  by (simp add: default_text_def js_def)

lemma number_to_string_chars:
  "c \<in> set (number_to_string n) \<Longrightarrow> c = 0x2D \<or> (0x30 \<le> c \<and> c \<le> 0x39)"
  using digits_are_digits by (auto simp: number_to_string_def split: if_splits)


lemma plain_audioFileName: "plain (audioFileName n)"
proof -
  have "0x2F \<notin> set (number_to_string n)"
    using number_to_string_chars[of "0x2F" n] by auto
  then show ?thesis
    by (simp add: plain_def audioFileName_def js_def)
qed

lemma audioFilePath: "path_join (audioDir E) (audioFileName n) = audioDir E @ [audioFileName n]"
  by (simp add: path_join_plain plain_audioFileName)

lemma write_new:
  "map_of fs (d @ [n]) = None \<Longrightarrow> map_of fs d = Some (Dir m) \<Longrightarrow> n \<noteq> [] \<Longrightarrow>
   writeFileSync fs (d @ [n]) buffer t = Inr (fs @ [(d @ [n], File t buffer)])"
  by (simp add: writeFileSync_def)

lemma write_existing:
  "map_of fs (d @ [n]) = Some (File m b) \<Longrightarrow> n \<noteq> [] \<Longrightarrow>
   writeFileSync fs (d @ [n]) buffer t =
     Inr (map (\<lambda>e. if fst e = d @ [n] then (d @ [n], File t buffer) else e) fs)"
  by (simp add: writeFileSync_def)

lemma map_of_replace:
  "map_of fs p = Some v \<Longrightarrow> map_of (map (\<lambda>e. if fst e = p then (p, w) else e) fs) p = Some w"
  by (induction fs) (auto split: if_splits)

lemma writeFileSync_stores:
  "writeFileSync fs p buffer t = Inr fs' \<Longrightarrow> resolve fs' p = Some (File t buffer)"
  by (auto simp: writeFileSync_def resolve_def map_of_replace map_add_def split: if_splits option.splits node.splits)

lemma chat_succeeds:
  assumes "prompt req = JStr s" "trim s \<noteq> []"
    and "chat_completions_create P (defaultSystemMessage (systemMessage req)) (JStr s) = Inr (t # choices)"
    and "audio_speech_create P t = Inr buffer"
    and "writeFileSync fs (audioDir E @ [audioFileName (dateNow C)]) buffer (fileTime C) = Inr fs'"
    and "get_length t = Inr rl"
  shows "chat E P C fs req =
       \<lparr>reply = res_json 200
          [(''success'', JBool True),
           (''textResponse'', t),
           (''audioUrl'', JStr (audioUrl (audioFileName (dateNow C)))),
           (''audioFileName'', JStr (audioFileName (dateNow C))),
           (''timestamp'', JStr (isoString C)),
           (''promptLength'', JNum (of_nat (length s))),
           (''responseLength'', rl)],
        disk = fs',
        calls = [ChatCompletionsCreate (defaultSystemMessage (systemMessage req)) (JStr s),
                 AudioSpeechCreate t]\<rparr>"
  using assms by (simp add: chat_def chat_try_def prompt_ok Let_def audioFilePath)

lemma chat_success:
  assumes "status (reply (chat E P C fs req)) = Some 200"
  shows "\<exists>s t choices buffer fs' rl.
     prompt req = JStr s \<and> trim s \<noteq> [] \<and>
     chat_completions_create P (defaultSystemMessage (systemMessage req)) (JStr s) = Inr (t # choices) \<and>
     audio_speech_create P t = Inr buffer \<and>
     writeFileSync fs (audioDir E @ [audioFileName (dateNow C)]) buffer (fileTime C) = Inr fs' \<and>
     get_length t = Inr rl \<and>
     chat E P C fs req =
       \<lparr>reply = res_json 200
          [(''success'', JBool True),
           (''textResponse'', t),
           (''audioUrl'', JStr (audioUrl (audioFileName (dateNow C)))),
           (''audioFileName'', JStr (audioFileName (dateNow C))),
           (''timestamp'', JStr (isoString C)),
           (''promptLength'', JNum (of_nat (length s))),
           (''responseLength'', rl)],
        disk = fs',
        calls = [ChatCompletionsCreate (defaultSystemMessage (systemMessage req)) (JStr s),
                 AudioSpeechCreate t]\<rparr>"
proof -
  let ?sm = "defaultSystemMessage (systemMessage req)"
  have pm: "prompt_missing (prompt req) = Inr False"
    using assms
    by (auto simp: chat_def chat_try_def status_res_json status_chat_catch_neq
             split: sum.splits bool.splits)
  then obtain s where s: "prompt req = JStr s" "trim s \<noteq> []"
    using prompt_missing_False by blast
  obtain cs where cs: "chat_completions_create P ?sm (JStr s) = Inr cs"
    using assms pm s
    by (cases "chat_completions_create P ?sm (JStr s)")
       (auto simp: chat_def chat_try_def Let_def status_chat_catch_neq)
  obtain t where t0: "first_content cs = Inr t"
    using assms pm s cs
    by (cases "first_content cs")
       (auto simp: chat_def chat_try_def Let_def status_chat_catch_neq)
  then obtain choices where "cs = t # choices"
    using first_content_Inr by blast
  with cs have t: "chat_completions_create P ?sm (JStr s) = Inr (t # choices)"
    by simp
  obtain buffer where b: "audio_speech_create P t = Inr buffer"
    using assms pm s cs t0
    by (cases "audio_speech_create P t")
       (auto simp: chat_def chat_try_def Let_def status_chat_catch_neq)
  let ?p = "audioDir E @ [audioFileName (dateNow C)]"
  obtain fs' where w: "writeFileSync fs ?p buffer (fileTime C) = Inr fs'"
    using assms pm s cs t0 b
    by (cases "writeFileSync fs ?p buffer (fileTime C)")
       (auto simp: chat_def chat_try_def Let_def audioFilePath status_chat_catch_neq)
  obtain rl where rl: "get_length t = Inr rl"
    using assms pm s cs t0 b w
    by (cases "get_length t")
       (auto simp: chat_def chat_try_def Let_def audioFilePath status_chat_catch_neq)
  have "chat E P C fs req =
       \<lparr>reply = res_json 200
          [(''success'', JBool True),
           (''textResponse'', t),
           (''audioUrl'', JStr (audioUrl (audioFileName (dateNow C)))),
           (''audioFileName'', JStr (audioFileName (dateNow C))),
           (''timestamp'', JStr (isoString C)),
           (''promptLength'', JNum (of_nat (length s))),
           (''responseLength'', rl)],
        disk = fs',
        calls = [ChatCompletionsCreate ?sm (JStr s), AudioSpeechCreate t]\<rparr>"
    using s t b w rl by (rule chat_succeeds)
  with s t b w rl show ?thesis by blast
qed

lemma example_write:
  "writeFileSync example_disk (audioDir example_env @ [audioFileName (dateNow C)])
      [0x49, 0x44, 0x33] (fileTime C) = Inr (example_disk @ [example_file C])"
proof -
  have "audioFileName (dateNow C) \<noteq> []"
    using plain_audioFileName by (simp add: plain_def)
  then show ?thesis
    unfolding audioDir_example example_file_def
    by (intro write_new[where m = 1600000000000])
       (simp_all add: example_disk_def example_audio_def js_inj)
qed

lemma example_write_again:
  "writeFileSync (example_disk @ [example_file C])
      (audioDir example_env @ [audioFileName (dateNow C)])
      [0x49, 0x44, 0x33] (fileTime C) = Inr (example_disk @ [example_file C])"
proof -
  have "audioFileName (dateNow C) \<noteq> []"
    using plain_audioFileName by (simp add: plain_def)
  then show ?thesis
    unfolding audioDir_example
    by (subst write_existing[where m = "fileTime C" and b = "[0x49, 0x44, 0x33]"])
       (simp_all add: example_disk_def example_file_def example_audio_def js_inj)
qed

lemma example_chat:
  assumes "trim (js p) \<noteq> []"
    and "fs = example_disk \<or> fs = example_disk @ [example_file C]"
  shows "chat example_env example_provider C fs \<lparr>prompt = JStr (js p), systemMessage = sm\<rparr> =
       \<lparr>reply = res_json 200
          [(''success'', JBool True),
           (''textResponse'', JStr (js ''Hello there!'')),
           (''audioUrl'', JStr (audioUrl (audioFileName (dateNow C)))),
           (''audioFileName'', JStr (audioFileName (dateNow C))),
           (''timestamp'', JStr (isoString C)),
           (''promptLength'', JNum (of_nat (length p))),
           (''responseLength'', JNum 12)],
        disk = example_disk @ [example_file C],
        calls = [ChatCompletionsCreate (defaultSystemMessage sm) (JStr (js p)),
                 AudioSpeechCreate (JStr (js ''Hello there!''))]\<rparr>"
proof -
  have w: "writeFileSync fs (audioDir example_env @ [audioFileName (dateNow C)])
      [0x49, 0x44, 0x33] (fileTime C) = Inr (example_disk @ [example_file C])"
    using assms(2) example_write example_write_again by blast
  have "chat example_env example_provider C fs \<lparr>prompt = JStr (js p), systemMessage = sm\<rparr> =
       \<lparr>reply = res_json 200
          [(''success'', JBool True),
           (''textResponse'', JStr (js ''Hello there!'')),
           (''audioUrl'', JStr (audioUrl (audioFileName (dateNow C)))),
           (''audioFileName'', JStr (audioFileName (dateNow C))),
           (''timestamp'', JStr (isoString C)),
           (''promptLength'', JNum (of_nat (length (js p)))),
           (''responseLength'', JNum 12)],
        disk = example_disk @ [example_file C],
        calls = [ChatCompletionsCreate (defaultSystemMessage (systemMessage \<lparr>prompt = JStr (js p), systemMessage = sm\<rparr>)) (JStr (js p)),
                 AudioSpeechCreate (JStr (js ''Hello there!''))]\<rparr>"
    by (rule chat_succeeds[where choices = "[]" and buffer = "[0x49, 0x44, 0x33]"])
       (simp_all add: assms(1) example_provider_def w, simp add: js_def)
  then show ?thesis by (simp add: js_def)
qed

lemma example_names:
  "audioFileName 1700000000000 = js ''response_1700000000000.mp3''"
  "audioFileName 1700000000001 = js ''response_1700000000001.mp3''"
  by (simp_all add: audioFileName_def number_to_string_def digits.simps digit_def js_def)

lemma example_prompts:
  "trim (js ''hi'') \<noteq> []" "trim (js ''bye'') \<noteq> []" "trim (js ''Say hello'') \<noteq> []"
  by (simp_all add: trim_def isWhiteSpace_def js_def)

lemma example_reply_status:
  assumes "trim (js p) \<noteq> []"
    and "fs = example_disk \<or> fs = example_disk @ [example_file C]"
  shows "status (reply (chat example_env example_provider C fs
           \<lparr>prompt = JStr (js p), systemMessage = sm\<rparr>)) = Some 200"
  by (simp add: example_chat[OF assms] status_res_json)

lemma example_failure:
  "chat_try E (failing_provider c) C fs (plain_request ''hi'') =
     (Inl (Exn (JStr (js c)) (JStr (js ''request failed''))), fs,
      [ChatCompletionsCreate (JStr default_text) (JStr (js ''hi''))])"
  by (simp add: chat_try_def plain_request_def prompt_ok example_prompts failing_provider_def
        defaultSystemMessage_def js_or_def)

lemma chat_try_generation_throws:
  assumes "prompt req = JStr s" "trim s \<noteq> []"
    and "chat_completions_create P (defaultSystemMessage (systemMessage req)) (JStr s) = Inl e"
  shows "chat_try E P C fs req =
     (Inl e, fs, [ChatCompletionsCreate (defaultSystemMessage (systemMessage req)) (JStr s)])"
  using assms by (simp add: chat_try_def prompt_ok)

lemma chat_try_speech_throws:
  assumes "prompt req = JStr s" "trim s \<noteq> []"
    and "chat_completions_create P (defaultSystemMessage (systemMessage req)) (JStr s) =
           Inr (t # choices)"
    and "audio_speech_create P t = Inl e"
  shows "chat_try E P C fs req =
     (Inl e, fs, [ChatCompletionsCreate (defaultSystemMessage (systemMessage req)) (JStr s),
                  AudioSpeechCreate t])"
  using assms by (simp add: chat_try_def prompt_ok)

lemma chat_try_write_throws:
  assumes "prompt req = JStr s" "trim s \<noteq> []"
    and "chat_completions_create P (defaultSystemMessage (systemMessage req)) (JStr s) =
           Inr (t # choices)"
    and "audio_speech_create P t = Inr buffer"
    and "writeFileSync fs (audioDir E @ [audioFileName (dateNow C)]) buffer (fileTime C) = Inl e"
  shows "chat_try E P C fs req =
     (Inl e, fs, [ChatCompletionsCreate (defaultSystemMessage (systemMessage req)) (JStr s),
                  AudioSpeechCreate t])"
  using assms by (simp add: chat_try_def prompt_ok Let_def audioFilePath)

lemma example_write_failure:
  "chat_try example_env example_provider example_clock [] (plain_request ''hi'') =
     (Inl (SystemError ''ENOENT''), [],
      [ChatCompletionsCreate (JStr default_text) (JStr (js ''hi'')),
       AudioSpeechCreate (JStr (js ''Hello there!''))])"
proof -
  have "audioFileName (dateNow example_clock) \<noteq> []"
    using plain_audioFileName by (simp add: plain_def)
  then have w: "writeFileSync [] (audioDir example_env @ [audioFileName (dateNow example_clock)])
      [0x49, 0x44, 0x33] (fileTime example_clock) = Inl (SystemError ''ENOENT'')"
    by (simp add: writeFileSync_def)
  have "chat_try example_env example_provider example_clock [] (plain_request ''hi'') =
     (Inl (SystemError ''ENOENT''), [],
      [ChatCompletionsCreate (defaultSystemMessage (systemMessage (plain_request ''hi''))) (JStr (js ''hi'')),
       AudioSpeechCreate (JStr (js ''Hello there!''))])"
    by (rule chat_try_write_throws[where choices = "[]" and buffer = "[0x49, 0x44, 0x33]"])
       (simp_all add: plain_request_def example_prompts example_provider_def w)
  then show ?thesis
    by (simp add: plain_request_def defaultSystemMessage_def js_or_def)
qed

text \<open>
  C9. A prompt that is truthy and not a string (a number, \<^verbatim>\<open>true\<close>, an array, an
  object) makes \<^verbatim>\<open>prompt.trim()\<close> throw; the \<^verbatim>\<open>catch\<close> block answers 500 with type
  \<^verbatim>\<open>server_error\<close>, not the 400 of the validation. No call is made and nothing is
  written.
\<close>

theorem chat_nonstring_prompt_is_server_error:
  assumes "truthy (prompt req)" and "\<forall>s. prompt req \<noteq> JStr s"
  shows "status (reply (chat E P C fs req)) = Some 500
       \<and> property ''type'' (body (reply (chat E P C fs req))) = JStr (js ''server_error'')
       \<and> property ''error'' (body (reply (chat E P C fs req))) =
           JStr (js ''Internal server error while processing your request'')
       \<and> disk (chat E P C fs req) = fs
       \<and> calls (chat E P C fs req) = []"
proof -
  obtain m where "call_trim (prompt req) = Inl (TypeError m)"
    using truthy_nonstring_trim assms by blast
  then have "chat_try E P C fs req = (Inl (TypeError m), fs, [])"
    using assms by (simp add: chat_try_def prompt_missing_def)
  then have "chat E P C fs req = \<lparr>reply = chat_catch E (TypeError m), disk = fs, calls = []\<rparr>"
    by (simp add: chat_def)
  then show ?thesis
    by (simp add: chat_catch_def TypeError_def status_res_json property_res_json)
qed

theorem chat_nonstring_prompt_is_server_error_witness:
  "status (reply (chat example_env example_provider example_clock example_disk
       \<lparr>prompt = JNum 42, systemMessage = JUndefined\<rparr>)) = Some 500
   \<and> property ''type'' (body (reply (chat example_env example_provider example_clock example_disk
       \<lparr>prompt = JNum 42, systemMessage = JUndefined\<rparr>))) = JStr (js ''server_error'')
   \<and> status (reply (chat example_env example_provider example_clock example_disk
       \<lparr>prompt = JObj [(js ''text'', JStr (js ''hi''))], systemMessage = JUndefined\<rparr>)) = Some 500"
  using chat_nonstring_prompt_is_server_error
          [of "\<lparr>prompt = JNum 42, systemMessage = JUndefined\<rparr>"
              example_env example_provider example_clock example_disk]
        chat_nonstring_prompt_is_server_error
          [of "\<lparr>prompt = JObj [(js ''text'', JStr (js ''hi''))], systemMessage = JUndefined\<rparr>"
              example_env example_provider example_clock example_disk]
  by simp

text \<open>
  C7. A valid chat request without a system message sends the fixed default text as
  the system message of its (only) text-generation call; any further call is the
  speech synthesis.
\<close>

theorem chat_default_system_message:
  assumes "prompt req = JStr s" and "trim s \<noteq> []" and "systemMessage req = JUndefined"
  shows "\<exists>rest. calls (chat E P C fs req) =
            ChatCompletionsCreate (JStr default_text) (JStr s) # rest
          \<and> (\<forall>c \<in> set rest. \<exists>t. c = AudioSpeechCreate t)"
  using chat_calls_shape[OF assms(1,2), of E P C fs] assms(3)
  by (auto simp: defaultSystemMessage_def js_or_def)

theorem chat_default_system_message_witness:
  "\<exists>rest. calls (chat example_env example_provider example_clock example_disk (plain_request ''hi'')) =
     ChatCompletionsCreate (JStr default_text) (JStr (js ''hi'')) # rest"
  using chat_default_system_message
          [of "plain_request ''hi''" "js ''hi''" example_env example_provider example_clock example_disk]
        example_prompts
  by (auto simp: plain_request_def)

text \<open>
  C2, as the code has it. The system message is never trimmed: a falsy one (absent,
  \<^verbatim>\<open>null\<close>, \<^verbatim>\<open>false\<close>, \<^verbatim>\<open>0\<close>, the empty string) is replaced by the default text, and
  any other is sent to the text-generation provider exactly as it came.
\<close>

theorem chat_system_message_used_as_given:
  assumes "prompt req = JStr s" and "trim s \<noteq> []"
  shows "\<exists>rest. calls (chat E P C fs req) =
            ChatCompletionsCreate
              (if truthy (systemMessage req) then systemMessage req else JStr default_text)
              (JStr s) # rest"
  using chat_calls_shape[OF assms, of E P C fs]
  by (auto simp: defaultSystemMessage_def js_or_def)

theorem chat_system_message_used_as_given_witness:
  "\<exists>rest. calls (chat example_env example_provider example_clock example_disk
            (styled_request ''hi'' '' be brief '')) =
     ChatCompletionsCreate (JStr (js '' be brief '')) (JStr (js ''hi'')) # rest"
proof -
  have "truthy (JStr (js '' be brief ''))" by (simp add: js_def)
  then show ?thesis
    using chat_system_message_used_as_given
          [of "styled_request ''hi'' '' be brief ''" "js ''hi''"
              example_env example_provider example_clock example_disk]
        example_prompts
    by (simp add: styled_request_def)
qed

text \<open>
  C2 as stated fails: the system message \<^verbatim>\<open>" be brief "\<close> is sent with its spaces, not
  as its trimmed form, and a message of three spaces, empty once trimmed, is sent as
  it is rather than replaced by the default.
\<close>

theorem system_message_sent_untrimmed_counterexample:
  "calls (chat example_env example_provider example_clock example_disk
            (styled_request ''hi'' '' be brief '')) =
     [ChatCompletionsCreate (JStr (js '' be brief '')) (JStr (js ''hi'')),
      AudioSpeechCreate (JStr (js ''Hello there!''))]
   \<and> trim (js '' be brief '') = js ''be brief''
   \<and> js '' be brief '' \<noteq> js ''be brief''
   \<and> calls (chat example_env example_provider example_clock example_disk
            (styled_request ''hi'' ''   '')) =
     [ChatCompletionsCreate (JStr (js ''   '')) (JStr (js ''hi'')),
      AudioSpeechCreate (JStr (js ''Hello there!''))]
   \<and> trim (js ''   '') = []
   \<and> JStr (js ''   '') \<noteq> JStr default_text"
proof -
  have a: "defaultSystemMessage (JStr (js '' be brief '')) = JStr (js '' be brief '')"
          "defaultSystemMessage (JStr (js ''   '')) = JStr (js ''   '')"
    by (simp_all add: defaultSystemMessage_def js_or_def js_def)
  have b: "trim (js '' be brief '') = js ''be brief''" "trim (js ''   '') = []"
    by (simp_all add: trim_def isWhiteSpace_def js_def)
  have c: "js ''   '' \<noteq> default_text"
    by (simp add: default_text_def js_def)
  show ?thesis
    using example_chat[OF example_prompts(1), of example_disk example_clock]
    by (simp add: styled_request_def a b c js_inj)
qed

text \<open>
  C4, as the code has it. A successful chat request names its audio file
  \<^verbatim>\<open>response_<Date.now()>.mp3\<close>, the file is then in the audio directory, and two
  successful requests have the same file name exactly when they read the same
  millisecond from the clock.
\<close>

theorem audio_file_name_from_clock:
  assumes "status (reply (chat E P C fs req)) = Some 200"
      and "status (reply (chat E' P' C' fs' req')) = Some 200"
  shows "property ''audioFileName'' (body (reply (chat E P C fs req))) =
           JStr (js ''response_'' @ number_to_string (dateNow C) @ js ''.mp3'')
       \<and> (\<exists>buffer. resolve (disk (chat E P C fs req))
             (audioDir E @ [js ''response_'' @ number_to_string (dateNow C) @ js ''.mp3'']) =
             Some (File (fileTime C) buffer))
       \<and> (property ''audioFileName'' (body (reply (chat E P C fs req))) =
          property ''audioFileName'' (body (reply (chat E' P' C' fs' req')))
          \<longleftrightarrow> dateNow C = dateNow C')"
proof -
  from chat_success[OF assms(1)] obtain buffer fs1 where
    w: "writeFileSync fs (audioDir E @ [audioFileName (dateNow C)]) buffer (fileTime C) = Inr fs1"
    and d: "disk (chat E P C fs req) = fs1"
    and n: "property ''audioFileName'' (body (reply (chat E P C fs req))) = JStr (audioFileName (dateNow C))"
    by (auto simp: property_res_json)
  from chat_success[OF assms(2)] have
    n': "property ''audioFileName'' (body (reply (chat E' P' C' fs' req'))) = JStr (audioFileName (dateNow C'))"
    by (auto simp: property_res_json)
  have "resolve fs1 (audioDir E @ [audioFileName (dateNow C)]) = Some (File (fileTime C) buffer)"
    using w by (rule writeFileSync_stores)
  then show ?thesis
    using n n' d by (auto simp: audioFileName_inj) (auto simp: audioFileName_def)
qed

theorem audio_file_name_from_clock_witness:
  "property ''audioFileName'' (body (reply (chat example_env example_provider example_clock
       example_disk (plain_request ''hi'')))) = JStr (js ''response_1700000000000.mp3'')
   \<and> property ''audioFileName'' (body (reply (chat example_env example_provider example_clock
       example_disk (plain_request ''hi'')))) \<noteq>
     property ''audioFileName'' (body (reply (chat example_env example_provider later_clock
       example_disk (plain_request ''bye''))))"
proof -
  have a: "status (reply (chat example_env example_provider example_clock example_disk
       (plain_request ''hi''))) = Some 200"
    by (simp add: plain_request_def example_reply_status example_prompts)
  have b: "status (reply (chat example_env example_provider later_clock example_disk
       (plain_request ''bye''))) = Some 200"
    by (simp add: plain_request_def example_reply_status example_prompts)
  have c: "js ''response_'' @ number_to_string (dateNow example_clock) @ js ''.mp3'' =
      js ''response_1700000000000.mp3''"
    using example_names(1) by (simp add: audioFileName_def example_clock_def)
  have d: "dateNow example_clock \<noteq> dateNow later_clock"
    by (simp add: later_clock_def example_clock_def)
  show ?thesis
    using audio_file_name_from_clock[OF a b] c d by auto
qed

text \<open>
  C4 as stated fails: two requests that read the same millisecond both succeed with
  the same file name. Here the second runs on the file system the first has left, and
  its write replaces the file of the first.
\<close>

theorem same_millisecond_same_name_counterexample:
  "status (reply (chat example_env example_provider example_clock example_disk
       (plain_request ''hi''))) = Some 200
   \<and> disk (chat example_env example_provider example_clock example_disk
       (plain_request ''hi'')) = example_disk @ [example_file example_clock]
   \<and> status (reply (chat example_env example_provider example_clock
       (example_disk @ [example_file example_clock]) (plain_request ''bye''))) = Some 200
   \<and> property ''audioFileName'' (body (reply (chat example_env example_provider example_clock
       example_disk (plain_request ''hi'')))) =
     property ''audioFileName'' (body (reply (chat example_env example_provider example_clock
       (example_disk @ [example_file example_clock]) (plain_request ''bye''))))
   \<and> disk (chat example_env example_provider example_clock
       (example_disk @ [example_file example_clock]) (plain_request ''bye'')) =
     example_disk @ [example_file example_clock]"
  by (simp add: plain_request_def example_chat example_prompts status_res_json property_res_json)

text \<open>
  C5. When the \<^verbatim>\<open>try\<close> block of the chat route throws \<open>e\<close> (a provider error, a
  network error, a file-system error, a \<^verbatim>\<open>TypeError\<close>), the status follows \<open>e.code\<close>:
  429 for \<^verbatim>\<open>insufficient_quota\<close>, 401 for \<^verbatim>\<open>invalid_api_key\<close>, and 500 with the generic
  message otherwise, with \<^verbatim>\<open>details\<close> only when \<^verbatim>\<open>NODE_ENV\<close> is \<^verbatim>\<open>development\<close>, hence
  never in production. A request that matches no route gets 404 with the list of the
  five routes.
\<close>

theorem chat_error_status:
  assumes "chat_try E P C fs req = (Inl e, fs', cs)"
  shows "reply (chat E P C fs req) =
     (if code e = JStr (js ''insufficient_quota'') then
        Json 429 (JObj
          [(js ''error'', JStr (js ''OpenAI API quota exceeded. Please check your API limits.'')),
           (js ''type'', JStr (js ''quota_error''))])
      else if code e = JStr (js ''invalid_api_key'') then
        Json 401 (JObj
          [(js ''error'', JStr (js ''Invalid OpenAI API key. Please check your configuration.'')),
           (js ''type'', JStr (js ''auth_error''))])
      else
        Json 500 (JObj
          ([(js ''error'', JStr (js ''Internal server error while processing your request'')),
            (js ''type'', JStr (js ''server_error''))] @
           (if NODE_ENV E = Some (js ''development'') \<and> message e \<noteq> JUndefined
            then [(js ''details'', message e)] else []))))
   \<and> (NODE_ENV E = Some (js ''production'') \<longrightarrow>
        property ''details'' (body (reply (chat E P C fs req))) = JUndefined)
   \<and> reply (handle E P C fs Unmatched) =
       Json 404 (JObj
         [(js ''error'', JStr (js ''Endpoint not found'')),
          (js ''availableEndpoints'',
           JArr [JStr (js ''GET /api/health''), JStr (js ''POST /api/chat''),
                 JStr (js ''GET /audio/:filename''), JStr (js ''DELETE /api/cleanup''),
                 JStr (js ''GET /api/config'')])])"
proof -
  have r: "reply (chat E P C fs req) = chat_catch E e"
    using assms by (simp add: chat_def)
  have "chat_catch E e = 
     (if code e = JStr (js ''insufficient_quota'') then
        Json 429 (JObj
          [(js ''error'', JStr (js ''OpenAI API quota exceeded. Please check your API limits.'')),
           (js ''type'', JStr (js ''quota_error''))])
      else if code e = JStr (js ''invalid_api_key'') then
        Json 401 (JObj
          [(js ''error'', JStr (js ''Invalid OpenAI API key. Please check your configuration.'')),
           (js ''type'', JStr (js ''auth_error''))])
      else
        Json 500 (JObj
          ([(js ''error'', JStr (js ''Internal server error while processing your request'')),
            (js ''type'', JStr (js ''server_error''))] @
           (if NODE_ENV E = Some (js ''development'') \<and> message e \<noteq> JUndefined
            then [(js ''details'', message e)] else []))))"
    by (simp add: chat_catch_def res_json_def)
  moreover have "NODE_ENV E = Some (js ''production'') \<longrightarrow>
        property ''details'' (body (chat_catch E e)) = JUndefined"
    by (simp add: chat_catch_def property_res_json js_inj)
  moreover have "reply (handle E P C fs Unmatched) =
       Json 404 (JObj
         [(js ''error'', JStr (js ''Endpoint not found'')),
          (js ''availableEndpoints'',
           JArr [JStr (js ''GET /api/health''), JStr (js ''POST /api/chat''),
                 JStr (js ''GET /audio/:filename''), JStr (js ''DELETE /api/cleanup''),
                 JStr (js ''GET /api/config'')])])"
    by (simp add: not_found_def res_json_def)
  ultimately show ?thesis using r by simp
qed

theorem chat_error_status_witness:
  "reply (chat example_env (failing_provider ''insufficient_quota'') example_clock example_disk
      (plain_request ''hi'')) =
     Json 429 (JObj
       [(js ''error'', JStr (js ''OpenAI API quota exceeded. Please check your API limits.'')),
        (js ''type'', JStr (js ''quota_error''))])
   \<and> reply (chat example_env (failing_provider ''invalid_api_key'') example_clock example_disk
      (plain_request ''hi'')) =
     Json 401 (JObj
       [(js ''error'', JStr (js ''Invalid OpenAI API key. Please check your configuration.'')),
        (js ''type'', JStr (js ''auth_error''))])
   \<and> reply (chat example_env (failing_provider ''ECONNRESET'') example_clock example_disk
      (plain_request ''hi'')) =
     Json 500 (JObj
       [(js ''error'', JStr (js ''Internal server error while processing your request'')),
        (js ''type'', JStr (js ''server_error''))])
   \<and> reply (chat (example_env\<lparr>NODE_ENV := Some (js ''development'')\<rparr>)
      (failing_provider ''ECONNRESET'') example_clock example_disk (plain_request ''hi'')) =
     Json 500 (JObj
       [(js ''error'', JStr (js ''Internal server error while processing your request'')),
        (js ''type'', JStr (js ''server_error'')),
        (js ''details'', JStr (js ''request failed''))])
   \<and> reply (chat example_env example_provider example_clock [] (plain_request ''hi'')) =
     Json 500 (JObj
       [(js ''error'', JStr (js ''Internal server error while processing your request'')),
        (js ''type'', JStr (js ''server_error''))])"
  using chat_error_status[OF example_write_failure]
        chat_error_status[OF example_failure, of example_env "''insufficient_quota''" example_clock example_disk]
        chat_error_status[OF example_failure, of example_env "''invalid_api_key''" example_clock example_disk]
        chat_error_status[OF example_failure, of example_env "''ECONNRESET''" example_clock example_disk]
        chat_error_status[OF example_failure, of "example_env\<lparr>NODE_ENV := Some (js ''development'')\<rparr>"
           "''ECONNRESET''" example_clock example_disk]
  by (simp add: js_inj example_env_def SystemError_def)

text \<open>
  What a successful chat request with the prompt \<^verbatim>\<open>Say hello\<close> answers, whatever the
  provider and the clock: the text of the provider's first choice, the URL built from
  \<^verbatim>\<open>Date.now()\<close>, and the number of code units of the prompt.
\<close>

lemma say_hello_fields:
  assumes "status (reply (chat E P C fs \<lparr>prompt = JStr (js ''Say hello''), systemMessage = sm\<rparr>)) = Some 200"
  shows "property ''success''
           (body (reply (chat E P C fs \<lparr>prompt = JStr (js ''Say hello''), systemMessage = sm\<rparr>))) =
         JBool True
       \<and> (\<exists>choices. chat_completions_create P (defaultSystemMessage sm) (JStr (js ''Say hello'')) =
            Inr (property ''textResponse''
              (body (reply (chat E P C fs \<lparr>prompt = JStr (js ''Say hello''), systemMessage = sm\<rparr>)))
              # choices))
       \<and> property ''audioUrl''
           (body (reply (chat E P C fs \<lparr>prompt = JStr (js ''Say hello''), systemMessage = sm\<rparr>))) =
         JStr (js ''/audio/response_'' @ number_to_string (dateNow C) @ js ''.mp3'')
       \<and> property ''promptLength''
           (body (reply (chat E P C fs \<lparr>prompt = JStr (js ''Say hello''), systemMessage = sm\<rparr>))) =
         JNum 9"
proof -
  let ?r = "reply (chat E P C fs \<lparr>prompt = JStr (js ''Say hello''), systemMessage = sm\<rparr>)"
  from chat_success[OF assms] obtain t choices rl where
    gen: "chat_completions_create P (defaultSystemMessage sm) (JStr (js ''Say hello'')) = Inr (t # choices)"
    and r: "?r = res_json 200
          [(''success'', JBool True),
           (''textResponse'', t),
           (''audioUrl'', JStr (audioUrl (audioFileName (dateNow C)))),
           (''audioFileName'', JStr (audioFileName (dateNow C))),
           (''timestamp'', JStr (isoString C)),
           (''promptLength'', JNum (of_nat (length (js ''Say hello'')))),
           (''responseLength'', rl)]"
    by auto
  have url: "audioUrl (audioFileName (dateNow C)) =
      js ''/audio/response_'' @ number_to_string (dateNow C) @ js ''.mp3''"
    by (simp add: audioUrl_def audioFileName_def js_def)
  have len: "length (js ''Say hello'') = 9"
    by (simp add: js_def)
  have "property ''success'' (body ?r) = JBool True"
    and "property ''textResponse'' (body ?r) = t"
    and "property ''audioUrl'' (body ?r) =
      JStr (js ''/audio/response_'' @ number_to_string (dateNow C) @ js ''.mp3'')"
    and "property ''promptLength'' (body ?r) = JNum 9"
    unfolding r by (simp_all add: property_res_json url len)
  then show ?thesis
    using gen by simp
qed



text \<open>
  The URL of that response, evaluated: thirteen digits.
\<close>

lemma say_hello_example_url:
  "property ''audioUrl'' (body (reply (chat example_env example_provider example_clock
       example_disk (plain_request ''Say hello'')))) =
     JStr (js ''/audio/response_1700000000000.mp3'')"
proof -
  have a: "status (reply (chat example_env example_provider example_clock example_disk
       \<lparr>prompt = JStr (js ''Say hello''), systemMessage = JUndefined\<rparr>)) = Some 200"
    by (simp add: example_reply_status example_prompts)
  have c: "js ''/audio/response_'' @ number_to_string (dateNow example_clock) @ js ''.mp3'' =
      js ''/audio/response_1700000000000.mp3''"
    by (simp add: example_clock_def number_to_string_def digits.simps digit_def js_def)
  show ?thesis
    using say_hello_fields[OF a] by (simp add: plain_request_def c)
qed


section \<open>The audio route\<close>

text \<open>
  For a file name that is a plain name the route looks it up in the audio directory:
  404 when nothing has the name, the bytes with the two headers when a file has it.
\<close>

lemma audio_404_iff:
  "status (audio E fs filename) = Some 404 \<longleftrightarrow> resolve fs (path_join (audioDir E) filename) = None"
  by (auto simp: audio_def existsSync_def status_res_json Let_def split: sum.splits)

lemma audio_plain_name:
  assumes "plain filename"
  shows "audio E fs filename =
     (case map_of fs (audioDir E @ [filename]) of
        None \<Rightarrow> Json 404 (JObj [(js ''error'', JStr (js ''Audio file not found''))])
      | Some (File t bs) \<Rightarrow> Stream audio_headers bs
      | Some (Dir t) \<Rightarrow> Aborted audio_headers (SystemError ''EISDIR''))"
proof -
  have "filename \<noteq> []" using assms by (simp add: plain_def)
  then show ?thesis
    by (simp add: audio_def path_join_plain assms existsSync_def createReadStream_def
          resolve_def res_json_def split: option.splits node.splits)
qed

text \<open>
  A name that resolves to a directory passes the existence check as well; the read
  stream then fails after the headers are set. \<^verbatim>\<open>..\<close> names the directory \<^verbatim>\<open>public\<close>.
\<close>

lemma audio_directory_aborts:
  "audio example_env example_disk (js ''..'') = Aborted audio_headers (SystemError ''EISDIR'')"
  by (simp add: audio_def audioDir_example example_audio_def example_disk_def path_join_def
       normalize_step_def existsSync_def createReadStream_def resolve_def js_def)

text \<open>
  C8 does not hold of the code. With an empty audio directory, the request
  \<^verbatim>\<open>GET /audio/..%2F..%2Findex.js\<close>, whose parameter is \<^verbatim>\<open>../../index.js\<close>, is answered
  with the bytes of the server's own \<^verbatim>\<open>index.js\<close> under \<^verbatim>\<open>Content-Type: audio/mpeg\<close>, not
  with 404: \<^verbatim>\<open>path.join\<close> resolves the name outside the audio directory.
\<close>

theorem audio_serves_file_outside_audio_directory:
  "audio example_env example_disk (js ''../../index.js'') = Stream audio_headers [0x2F, 0x2F]
   \<and> entries example_disk (audioDir example_env) = []
   \<and> status (audio example_env example_disk (js ''../../index.js'')) \<noteq> Some 404"
  by (simp add: audio_def audioDir_example example_audio_def example_disk_def path_join_def
       normalize_step_def existsSync_def createReadStream_def resolve_def entries_def js_def)

end
